(* ===== verification/Prelude.thy ===== *)
theory Prelude
  imports
    Complex_Main
    "HOL-Library.Sublist"
    "HOL-Library.Char_ord"
    "HOL-Library.List_Lexorder"
begin

text \<open>
  Shared vocabulary of the development: the error values that stand for the Python
  exceptions \<^verbatim>\<open>src/eda.py\<close> can raise, the result type built on them, and the list
  operations every component uses (selection by a boolean mask, which is how the table
  library filters rows; de-duplication in order of first appearance; the transposition
  that reads a column-oriented table row by row), each with the lemmas that carry the
  component proofs. Three collections name the facts later theories add to:
  \<open>frame_defs\<close> (definitions of the table operations, for unfolding),
  \<open>wf_intros\<close> (well-formedness is preserved, as rewrite rules) and \<open>shape_simps\<close> (row and column
  counts of results).
\<close>

section \<open>Collections\<close>

named_theorems frame_defs "definitions of the table operations"
named_theorems wf_intros "operations preserve well-formedness"
named_theorems shape_simps "row and column counts of the operations' results"

section \<open>Errors as values\<close>

text \<open>
  One constructor per exception class the script can raise. \<open>LoadError\<close> stands for
  whatever the HTML fetch or its table parser raises; the others carry the offending
  name, as the Python messages do.
\<close>

datatype error =
    LoadError
  | IndexError
  | AttributeError string
  | KeyError string
  | TypeError string
  | ValueError string

type_synonym 'a result = "error + 'a"

definition is_ok :: "'a result \<Rightarrow> bool" where
  "is_ok r = (case r of Inl _ \<Rightarrow> False | Inr _ \<Rightarrow> True)"

definition bind_result :: "'a result \<Rightarrow> ('a \<Rightarrow> 'b result) \<Rightarrow> 'b result" where
  "bind_result r f = (case r of Inl e \<Rightarrow> Inl e | Inr x \<Rightarrow> f x)"

lemma is_ok_simps [simp]: "is_ok (Inr x)" "\<not> is_ok (Inl e)"
  by (simp_all add: is_ok_def)

lemma is_ok_iff: "is_ok r \<longleftrightarrow> (\<exists>x. r = Inr x)"
  by (cases r) simp_all

lemma bind_result_simps [simp]:
  "bind_result (Inl e) f = Inl e"
  "bind_result (Inr x) f = f x"
  by (simp_all add: bind_result_def)

lemma bind_result_eq_Inr:
  "bind_result r f = Inr y \<longleftrightarrow> (\<exists>x. r = Inr x \<and> f x = Inr y)"
  by (cases r) simp_all

lemma bind_result_eq_Inl:
  "bind_result r f = Inl e \<longleftrightarrow> r = Inl e \<or> (\<exists>x. r = Inr x \<and> f x = Inl e)"
  by (cases r) simp_all

section \<open>Lists\<close>

lemma map_eq_replicate: "\<forall>x \<in> set xs. f x = c \<Longrightarrow> map f xs = replicate (length xs) c"
  by (induction xs) simp_all

lemma find_position:
  "find P xs = Some x \<Longrightarrow>
   length (takeWhile (\<lambda>y. \<not> P y) xs) < length xs \<and> xs ! length (takeWhile (\<lambda>y. \<not> P y) xs) = x"
  by (induction xs) (auto split: if_splits)

lemma map2_map_same: "map2 f (map g xs) (map h xs) = map (\<lambda>x. f (g x) (h x)) xs"
  by (induction xs) simp_all

section \<open>Selection by a boolean mask\<close>

text \<open>
  \<open>select_mask m xs\<close> keeps the elements of \<open>xs\<close> whose position holds \<open>True\<close> in
  \<open>m\<close>, in their order: boolean indexing of an array.
\<close>

fun select_mask :: "bool list \<Rightarrow> 'a list \<Rightarrow> 'a list" where
  "select_mask (b # bs) (x # xs) = (if b then x # select_mask bs xs else select_mask bs xs)"
| "select_mask _ _ = []"

lemma select_mask_Nil [simp]: "select_mask m [] = []"
  by (cases m) simp_all

lemma select_mask_zip: "select_mask m xs = map snd (filter fst (zip m xs))"
  by (induction m xs rule: select_mask.induct) simp_all

lemma select_mask_map_pred [simp]: "select_mask (map P xs) xs = filter P xs"
  by (induction xs) simp_all

lemma select_mask_map: "select_mask m (map f xs) = map f (select_mask m xs)"
  by (induction m xs rule: select_mask.induct) simp_all

lemma length_select_mask:
  "length m = length xs \<Longrightarrow> length (select_mask m xs) = length (filter id m)"
  by (induction m xs rule: list_induct2) simp_all

lemma length_select_mask_le [simp]: "length (select_mask m xs) \<le> length xs"
  by (induction m xs rule: select_mask.induct) (simp_all add: le_SucI)

lemma set_select_mask_subset: "set (select_mask m xs) \<subseteq> set xs"
  by (induction m xs rule: select_mask.induct) auto

lemma subseq_select_mask [simp]: "subseq (select_mask m xs) xs"
  by (induction m xs rule: select_mask.induct) auto

lemma distinct_select_mask [simp]: "distinct xs \<Longrightarrow> distinct (select_mask m xs)"
  using set_select_mask_subset
  by (induction m xs rule: select_mask.induct) fastforce+

lemma list_all_select_mask [simp]: "list_all P xs \<Longrightarrow> list_all P (select_mask m xs)"
  using set_select_mask_subset [of m xs] by (auto simp: list_all_iff)

lemma select_mask_all_True:
  "length xs \<le> length m \<Longrightarrow> \<forall>b \<in> set m. b \<Longrightarrow> select_mask m xs = xs"
  by (induction m xs rule: select_mask.induct) auto

lemma select_mask_all_False: "\<forall>b \<in> set m. \<not> b \<Longrightarrow> select_mask m xs = []"
  by (induction m xs rule: select_mask.induct) auto

lemma select_mask_replicate_False [simp]: "select_mask (replicate n False) xs = []"
  by (rule select_mask_all_False) simp

lemma select_mask_replicate_True [simp]:
  "length xs = n \<Longrightarrow> select_mask (replicate n True) xs = xs"
  by (rule select_mask_all_True) simp_all

lemma find_map_list: "find P (map f xs) = map_option f (find (P \<circ> f) xs)"
  by (induction xs) simp_all

lemma set_select_mask:
  "length m = length xs \<Longrightarrow> set (select_mask m xs) = {xs ! i |i. i < length xs \<and> m ! i}"
proof (intro set_eqI iffI)
  fix x
  assume len: "length m = length xs" and "x \<in> set (select_mask m xs)"
  then obtain b where "(b, x) \<in> set (zip m xs)" and b
    by (auto simp: select_mask_zip)
  then obtain i where "m ! i" "xs ! i = x" "i < length xs"
    by (auto simp: in_set_zip)
  then show "x \<in> {xs ! i |i. i < length xs \<and> m ! i}"
    by blast
next
  fix x
  assume len: "length m = length xs" and "x \<in> {xs ! i |i. i < length xs \<and> m ! i}"
  then obtain i where i: "i < length xs" "m ! i" "x = xs ! i"
    by blast
  with len have "(True, x) \<in> set (zip m xs)"
    by (auto simp: in_set_zip intro!: exI [of _ i])
  then have "x \<in> snd ` {p \<in> set (zip m xs). fst p}"
    by force
  then show "x \<in> set (select_mask m xs)"
    by (simp add: select_mask_zip)
qed

lemma select_mask_complement:
  assumes "length ys = length xs"
  shows "set (select_mask (map (\<lambda>l. l \<notin> set (select_mask (map P ys) xs)) xs) ys)
         \<subseteq> {y \<in> set ys. \<not> P y}"
proof
  fix y
  let ?L = "select_mask (map P ys) xs"
  assume "y \<in> set (select_mask (map (\<lambda>l. l \<notin> set ?L) xs) ys)"
  with assms obtain i where i: "i < length ys" "xs ! i \<notin> set ?L" "y = ys ! i"
    by (auto simp: set_select_mask)
  have "\<not> P (ys ! i)"
  proof
    assume "P (ys ! i)"
    with i(1) assms have "xs ! i \<in> set ?L"
      by (auto simp: set_select_mask)
    with i(2) show False ..
  qed
  with i show "y \<in> {y \<in> set ys. \<not> P y}"
    by simp
qed

lemma mem_select_mask_distinct:
  "length m = length xs \<Longrightarrow> distinct xs \<Longrightarrow>
   map (\<lambda>x. x \<in> set (select_mask m xs)) xs = m"
proof (induction m xs rule: list_induct2)
  case Nil
  show ?case by simp
next
  case (Cons b m x xs)
  then have IH: "map (\<lambda>y. y \<in> set (select_mask m xs)) xs = m"
    by simp
  from Cons.prems have "x \<notin> set xs"
    by simp
  with set_select_mask_subset [of m xs] have nx: "x \<notin> set (select_mask m xs)"
    by auto
  have "map (\<lambda>y. y \<in> set (select_mask (b # m) (x # xs))) xs
      = map (\<lambda>y. y \<in> set (select_mask m xs)) xs"
    using \<open>x \<notin> set xs\<close> by (intro map_cong) auto
  with IH nx show ?case by simp
qed

lemma select_mask_map2_Cons:
  "length m = length c \<Longrightarrow> length c = length rs \<Longrightarrow>
   select_mask m (map2 (#) c rs) = map2 (#) (select_mask m c) (select_mask m rs)"
  by (induction m c rs rule: list_induct3) simp_all

lemma select_mask_conj:
  "length m1 = length m2 \<Longrightarrow>
   select_mask (map2 (\<and>) m1 m2) xs = map snd (filter (\<lambda>(b, x). b) (zip (map2 (\<and>) m1 m2) xs))"
  by (simp add: select_mask_zip case_prod_unfold)

section \<open>De-duplication in order of first appearance\<close>

text \<open>
  \<open>unique\<close> keeps the first occurrence of every element, as the table library's
  \<^verbatim>\<open>unique()\<close> does (\<open>remdups\<close> of the list library keeps the last one).
\<close>

fun unique :: "'a list \<Rightarrow> 'a list" where
  "unique [] = []"
| "unique (x # xs) = x # filter (\<lambda>y. y \<noteq> x) (unique xs)"

lemma set_unique [simp]: "set (unique xs) = set xs"
  by (induction xs) auto

lemma distinct_unique [simp]: "distinct (unique xs)"
  by (induction xs) simp_all

lemma unique_distinct_id: "distinct xs \<Longrightarrow> unique xs = xs"
proof (induction xs)
  case Nil
  show ?case by simp
next
  case (Cons x xs)
  then have "filter (\<lambda>y. y \<noteq> x) xs = xs"
    by (auto intro: filter_True)
  with Cons show ?case by simp
qed

lemma unique_idem [simp]: "unique (unique xs) = unique xs"
  by (simp add: unique_distinct_id)

lemma subseq_unique [simp]: "subseq (unique xs) xs"
proof (induction xs)
  case Nil
  show ?case by simp
next
  case (Cons x xs)
  have "subseq (filter (\<lambda>y. y \<noteq> x) (unique xs)) (unique xs)"
    by simp
  from subseq_order.order_trans [OF this Cons] show ?case
    by simp
qed

lemma length_unique_le: "length (unique xs) \<le> length xs"
  using subseq_unique by (rule list_emb_length)

section \<open>Columns read as rows\<close>

text \<open>
  A table is stored as columns of one length \<open>n\<close>; \<open>rows_of n cs\<close> is the list of its
  \<open>n\<close> rows, each row holding one value per column, in column order. A table without
  columns still has \<open>n\<close> (empty) rows.
\<close>

fun rows_of :: "nat \<Rightarrow> 'a list list \<Rightarrow> 'a list list" where
  "rows_of n [] = replicate n []"
| "rows_of n (c # cs) = map2 (#) c (rows_of n cs)"

lemma length_rows_of [simp]:
  "list_all (\<lambda>c. length c = n) cs \<Longrightarrow> length (rows_of n cs) = n"
  by (induction cs) simp_all

lemma rows_of_width:
  "list_all (\<lambda>c. length c = n) cs \<Longrightarrow> r \<in> set (rows_of n cs) \<Longrightarrow> length r = length cs"
proof (induction cs arbitrary: r)
  case Nil
  then show ?case by simp
next
  case (Cons c cs)
  from Cons.prems obtain x r' where "r = x # r'" and "r' \<in> set (rows_of n cs)"
    by (auto simp: set_zip)
  with Cons show ?case by simp
qed

lemma select_mask_replicate:
  "length m = n \<Longrightarrow> select_mask m (replicate n x) = replicate (length (filter id m)) x"
  by (induction m arbitrary: n) auto

lemma rows_of_select_mask:
  "length m = n \<Longrightarrow> list_all (\<lambda>c. length c = n) cs \<Longrightarrow>
   rows_of (length (filter id m)) (map (select_mask m) cs) = select_mask m (rows_of n cs)"
  by (induction cs) (simp_all add: select_mask_replicate select_mask_map2_Cons)

lemma rows_of_nth:
  "list_all (\<lambda>c. length c = n) cs \<Longrightarrow> i < n \<Longrightarrow> rows_of n cs ! i = map (\<lambda>c. c ! i) cs"
  by (induction cs) simp_all

end
