(* ===== verification/Text.thy ===== *)
theory Text
  imports Prelude
begin

text \<open>
  The string functions of Python that \<^verbatim>\<open>src/eda.py\<close> applies: the decimal text of an
  integer (the \<^verbatim>\<open>{year}\<close> and \<^verbatim>\<open>{df.shape[0]}\<close> fields of its f-strings) and the three
  methods that normalise a column name (\<^verbatim>\<open>strip\<close>, \<^verbatim>\<open>lower\<close>, \<^verbatim>\<open>replace\<close>). A
  \<open>string\<close> is a list of 8-bit characters, so the functions are those of Python on ASCII
  text: \<open>is_space\<close> holds the ASCII characters for which \<^verbatim>\<open>str.isspace\<close> is true and
  \<open>lower_char\<close> maps \<^verbatim>\<open>A-Z\<close> only. The lemmas give the decimal text a left inverse
  (so that it is injective) and characterise the fixed points of the three methods.
\<close>

section \<open>Decimal text of integers\<close>

definition digit_char :: "nat \<Rightarrow> char" where
  "digit_char d = ''0123456789'' ! d"

definition digit_val :: "char \<Rightarrow> nat" where
  "digit_val c = of_char c - 48"

definition is_digit :: "char \<Rightarrow> bool" where
  "is_digit c \<longleftrightarrow> CHR ''0'' \<le> c \<and> c \<le> CHR ''9''"

fun str_of_nat :: "nat \<Rightarrow> string" where
  "str_of_nat n = (if n < 10 then [digit_char n] else str_of_nat (n div 10) @ [digit_char (n mod 10)])"

declare str_of_nat.simps [simp del]

definition str_of_int :: "int \<Rightarrow> string" where
  "str_of_int i = (if i < 0 then CHR ''-'' # str_of_nat (nat (- i)) else str_of_nat (nat i))"

definition nat_of_str :: "string \<Rightarrow> nat" where
  "nat_of_str s = foldl (\<lambda>a c. 10 * a + digit_val c) 0 s"

definition int_of_str :: "string \<Rightarrow> int" where
  "int_of_str s = (case s of [] \<Rightarrow> 0
     | c # cs \<Rightarrow> if c = CHR ''-'' then - int (nat_of_str cs) else int (nat_of_str s))"

lemma digit_char_cases:
  "d < 10 \<Longrightarrow> d = 0 \<or> d = 1 \<or> d = 2 \<or> d = 3 \<or> d = 4 \<or> d = 5 \<or> d = 6 \<or> d = 7 \<or> d = 8 \<or> d = (9::nat)"
  by arith

lemma digit_val_digit_char [simp]: "d < 10 \<Longrightarrow> digit_val (digit_char d) = d"
  by (drule digit_char_cases) (auto simp: digit_val_def digit_char_def)

lemma is_digit_digit_char [simp]: "d < 10 \<Longrightarrow> is_digit (digit_char d)"
  by (drule digit_char_cases) (auto simp: is_digit_def digit_char_def less_eq_char_def)

lemma digit_char_not_minus [simp]: "d < 10 \<Longrightarrow> digit_char d \<noteq> CHR ''-''"
  by (drule digit_char_cases) (auto simp: digit_char_def)

lemma is_digit_not_special:
  "is_digit c \<Longrightarrow> c \<noteq> CHR ''-'' \<and> c \<noteq> CHR '','' \<and> c \<noteq> CHR 0x22 \<and> c \<noteq> CHR 0x0A \<and> c \<noteq> CHR 0x0D"
  by (auto simp: is_digit_def less_eq_char_def)

lemma str_of_nat_nonempty [simp]: "str_of_nat n \<noteq> []"
  by (subst str_of_nat.simps) simp

lemma str_of_nat_digits: "c \<in> set (str_of_nat n) \<Longrightarrow> is_digit c"
proof (induction n rule: str_of_nat.induct)
  case (1 n)
  then show ?case
    by (subst (asm) (2) str_of_nat.simps) (auto split: if_splits)
qed

lemma nat_of_str_append [simp]:
  "nat_of_str (s @ [c]) = 10 * nat_of_str s + digit_val c"
  by (simp add: nat_of_str_def)

lemma nat_of_str_str_of_nat [simp]: "nat_of_str (str_of_nat n) = n"
proof (induction n rule: str_of_nat.induct)
  case (1 n)
  show ?case
  proof (cases "n < 10")
    case True
    then show ?thesis
      by (simp add: str_of_nat.simps [of n] nat_of_str_def)
  next
    case False
    with "1.IH" show ?thesis
      by (simp add: str_of_nat.simps [of n])
  qed
qed

lemma str_of_nat_inject [simp]: "str_of_nat m = str_of_nat n \<longleftrightarrow> m = n"
  by (metis nat_of_str_str_of_nat)

lemma hd_str_of_nat_not_minus: "hd (str_of_nat n) \<noteq> CHR ''-''"
proof -
  have "hd (str_of_nat n) \<in> set (str_of_nat n)"
    by simp
  then have "is_digit (hd (str_of_nat n))"
    by (rule str_of_nat_digits)
  then show ?thesis
    by (simp add: is_digit_not_special)
qed

lemma int_of_str_str_of_int [simp]: "int_of_str (str_of_int i) = i"
proof (cases "i < 0")
  case True
  then show ?thesis
    by (simp add: int_of_str_def str_of_int_def)
next
  case False
  obtain c cs where s: "str_of_nat (nat i) = c # cs"
    by (cases "str_of_nat (nat i)") simp_all
  with hd_str_of_nat_not_minus [of "nat i"] have "c \<noteq> CHR ''-''"
    by simp
  moreover have "nat_of_str (c # cs) = nat i"
    using s [symmetric] by simp
  ultimately show ?thesis
    using False s by (simp add: int_of_str_def str_of_int_def)
qed

lemma str_of_int_inject [simp]: "str_of_int i = str_of_int j \<longleftrightarrow> i = j"
  by (metis int_of_str_str_of_int)

lemma str_of_int_nonempty [simp]: "str_of_int i \<noteq> []"
  by (simp add: str_of_int_def)

lemma str_of_int_chars: "c \<in> set (str_of_int i) \<Longrightarrow> is_digit c \<or> c = CHR ''-''"
  by (auto simp: str_of_int_def dest: str_of_nat_digits split: if_splits)

section \<open>Whitespace and \<^verbatim>\<open>strip\<close>\<close>

definition is_space :: "char \<Rightarrow> bool" where
  "is_space c \<longleftrightarrow> c \<in> set [CHR 0x09, CHR 0x0A, CHR 0x0B, CHR 0x0C, CHR 0x0D,
                             CHR 0x1C, CHR 0x1D, CHR 0x1E, CHR 0x1F, CHR 0x20]"

definition lstrip :: "string \<Rightarrow> string" where
  "lstrip s = dropWhile is_space s"

definition rstrip :: "string \<Rightarrow> string" where
  "rstrip s = rev (dropWhile is_space (rev s))"

definition strip :: "string \<Rightarrow> string" where
  "strip s = rstrip (lstrip s)"

definition stripped :: "string \<Rightarrow> bool" where
  "stripped s \<longleftrightarrow> s = [] \<or> (\<not> is_space (hd s) \<and> \<not> is_space (last s))"

lemma lstrip_Nil [simp]: "lstrip [] = []"
  by (simp add: lstrip_def)

lemma rstrip_Nil [simp]: "rstrip [] = []"
  by (simp add: rstrip_def)

lemma strip_Nil [simp]: "strip [] = []"
  by (simp add: strip_def)

lemma hd_lstrip: "lstrip s \<noteq> [] \<Longrightarrow> \<not> is_space (hd (lstrip s))"
  unfolding lstrip_def by (rule hd_dropWhile)

lemma last_rstrip: "rstrip s \<noteq> [] \<Longrightarrow> \<not> is_space (last (rstrip s))"
  unfolding rstrip_def by (simp add: last_rev hd_dropWhile)

lemma lstrip_id: "s = [] \<or> \<not> is_space (hd s) \<Longrightarrow> lstrip s = s"
  by (cases s) (auto simp: lstrip_def)

lemma rstrip_id: "s = [] \<or> \<not> is_space (last s) \<Longrightarrow> rstrip s = s"
proof (cases s rule: rev_cases)
  case Nil
  then show ?thesis by simp
next
  case (snoc ys y)
  assume "s = [] \<or> \<not> is_space (last s)"
  with snoc show ?thesis by (simp add: rstrip_def)
qed

lemma hd_rstrip: "rstrip s \<noteq> [] \<Longrightarrow> hd (rstrip s) = hd s"
proof (induction s rule: rev_induct)
  case Nil
  then show ?case by simp
next
  case (snoc x xs)
  show ?case
  proof (cases "is_space x")
    case True
    with snoc show ?thesis
      by (cases xs) (auto simp: rstrip_def)
  next
    case False
    then show ?thesis by (simp add: rstrip_def)
  qed
qed

lemma stripped_strip [simp]: "stripped (strip s)"
proof (cases "strip s = []")
  case True
  then show ?thesis by (simp add: stripped_def)
next
  case False
  then have ne: "lstrip s \<noteq> []"
    by (auto simp: strip_def)
  from False have "hd (strip s) = hd (lstrip s)"
    unfolding strip_def by (rule hd_rstrip)
  with hd_lstrip [OF ne] last_rstrip [of "lstrip s"] False show ?thesis
    by (simp add: stripped_def strip_def)
qed

lemma strip_id: "stripped s \<Longrightarrow> strip s = s"
  by (auto simp: stripped_def strip_def lstrip_id rstrip_id)

lemma strip_id_iff: "strip s = s \<longleftrightarrow> stripped s"
  by (metis strip_id stripped_strip)

lemma strip_idem [simp]: "strip (strip s) = strip s"
  by (simp add: strip_id)

lemma length_strip_le: "length (strip s) \<le> length s"
proof -
  have "length (rstrip t) \<le> length t" for t
    unfolding rstrip_def using length_dropWhile_le [of is_space "rev t"] by simp
  from this [of "lstrip s"] length_dropWhile_le [of is_space s] show ?thesis
    by (simp add: strip_def lstrip_def)
qed

section \<open>\<^verbatim>\<open>lower\<close> and \<^verbatim>\<open>replace\<close>\<close>

definition is_upper :: "char \<Rightarrow> bool" where
  "is_upper c \<longleftrightarrow> CHR ''A'' \<le> c \<and> c \<le> CHR ''Z''"

definition lower_char :: "char \<Rightarrow> char" where
  "lower_char c = (if is_upper c then char_of (of_char c + (32::nat)) else c)"

definition lower :: "string \<Rightarrow> string" where
  "lower s = map lower_char s"

definition replace_char :: "char \<Rightarrow> char \<Rightarrow> string \<Rightarrow> string" where
  "replace_char old new s = map (\<lambda>c. if c = old then new else c) s"

lemma of_char_lower_char:
  "is_upper c \<Longrightarrow> of_char (lower_char c) = of_char c + (32::nat)"
  by (simp add: lower_char_def is_upper_def less_eq_char_def)

lemma not_upper_lower_char [simp]: "\<not> is_upper (lower_char c)"
proof (cases "is_upper c")
  case True
  then have "of_char (lower_char c) = of_char c + (32::nat)"
    by (rule of_char_lower_char)
  with True show ?thesis
    by (simp add: is_upper_def less_eq_char_def)
next
  case False
  then show ?thesis by (simp add: lower_char_def)
qed

lemma lower_char_id: "\<not> is_upper c \<Longrightarrow> lower_char c = c"
  by (simp add: lower_char_def)

lemma upper_not_space: "is_upper c \<Longrightarrow> \<not> is_space c"
  by (auto simp: is_upper_def is_space_def less_eq_char_def)

lemma is_space_lower_char [simp]: "is_space (lower_char c) \<longleftrightarrow> is_space c"
proof (cases "is_upper c")
  case True
  then have "of_char (lower_char c) = of_char c + (32::nat)"
    by (rule of_char_lower_char)
  moreover from True have "65 \<le> (of_char c :: nat)"
    by (simp add: is_upper_def less_eq_char_def)
  ultimately have "97 \<le> (of_char (lower_char c) :: nat)"
    by simp
  then have "\<not> is_space (lower_char c)"
    by (auto simp: is_space_def)
  with True show ?thesis
    by (simp add: upper_not_space)
next
  case False
  then show ?thesis by (simp add: lower_char_def)
qed

lemma lower_idem [simp]: "lower (lower s) = lower s"
  by (simp add: lower_def lower_char_id)

lemma length_lower [simp]: "length (lower s) = length s"
  by (simp add: lower_def)

lemma length_replace_char [simp]: "length (replace_char a b s) = length s"
  by (simp add: replace_char_def)

lemma lower_eq_Nil [simp]: "lower s = [] \<longleftrightarrow> s = []"
  by (simp add: lower_def)

lemma replace_char_eq_Nil [simp]: "replace_char a b s = [] \<longleftrightarrow> s = []"
  by (simp add: replace_char_def)

lemma set_replace_char: "a \<noteq> b \<Longrightarrow> a \<notin> set (replace_char a b s)"
  by (auto simp: replace_char_def)

lemma replace_char_id: "a \<notin> set s \<Longrightarrow> replace_char a b s = s"
  by (induction s) (auto simp: replace_char_def)

lemma lower_id: "\<forall>c \<in> set s. \<not> is_upper c \<Longrightarrow> lower s = s"
  by (induction s) (auto simp: lower_def lower_char_id)

lemma stripped_lower [simp]: "stripped (lower s) \<longleftrightarrow> stripped s"
  by (cases "s = []") (simp_all add: stripped_def lower_def hd_map last_map)

section \<open>Evaluation\<close>

text \<open>Unfolding rules that evaluate the functions of this theory on literals.\<close>

lemmas text_eval =
  strip_def lstrip_def rstrip_def is_space_def lower_def lower_char_def is_upper_def
  less_eq_char_def replace_char_def char_of_def bit_0

lemmas num_eval = str_of_int_def str_of_nat.simps digit_char_def

lemma str_of_int_examples:
  "str_of_int 2023 = ''2023''" "str_of_int 0 = ''0''" "str_of_int (- 15) = ''-15''"
  by (simp_all add: num_eval)

end
