(* ===== verification/Frame.thy ===== *)
theory Frame
  imports Text
begin

text \<open>
  The table \<^verbatim>\<open>src/eda.py\<close> works on, and the operations of the table library the script
  calls on it, with the meaning they have at each call site. A table (\<open>frame\<close>) is
  stored as the library stores it: a list of row labels (\<open>index\<close>) and a list of named,
  typed columns of cells. Every operation is a function from tables to tables; a call that
  can raise returns a \<open>result\<close>. The lemmas are of three kinds: each operation keeps a
  table well formed (\<open>wf_frame\<close>: the columns are as long as the index and hold cells of
  their type), the shape of each result, and what each operation does to the rows
  (\<open>rows\<close>), which is the view the specification takes of a table.
\<close>

section \<open>Cells, columns and tables\<close>

text \<open>
  A cell holds a Python string, an integer, a float or the missing-value marker. Floats
  are modelled by the rational they denote: no rounding is modelled. A column carries its
  element type as the library does, independently of its contents: \<open>Object\<close> columns hold
  cells of any kind.
\<close>

datatype cell = VStr string | VInt int | VFloat rat | VNaN

datatype dtype = Int64 | Float64 | Object

record column =
  cname :: string
  ctype :: dtype
  cells :: "cell list"

record frame =
  index :: "nat list"
  columns :: "column list"

type_synonym mask = "bool list"

fun cell_ok :: "dtype \<Rightarrow> cell \<Rightarrow> bool" where
  "cell_ok Int64 (VInt i) = True"
| "cell_ok Int64 c = False"
| "cell_ok Float64 (VFloat r) = True"
| "cell_ok Float64 VNaN = True"
| "cell_ok Float64 c = False"
| "cell_ok Object c = True"

definition wf_column :: "nat \<Rightarrow> column \<Rightarrow> bool" where
  "wf_column n k \<longleftrightarrow> length (cells k) = n \<and> list_all (cell_ok (ctype k)) (cells k)"

definition nrows :: "frame \<Rightarrow> nat" where
  "nrows df = length (index df)"

definition ncols :: "frame \<Rightarrow> nat" where
  "ncols df = length (columns df)"

definition wf_frame :: "frame \<Rightarrow> bool" where
  "wf_frame df \<longleftrightarrow> list_all (wf_column (nrows df)) (columns df)"

definition shape :: "frame \<Rightarrow> nat \<times> nat" where
  "shape df = (nrows df, ncols df)"

definition column_names :: "frame \<Rightarrow> string list" where
  "column_names df = map cname (columns df)"

definition has_column :: "string \<Rightarrow> frame \<Rightarrow> bool" where
  "has_column c df \<longleftrightarrow> c \<in> set (column_names df)"

definition rows :: "frame \<Rightarrow> cell list list" where
  "rows df = rows_of (nrows df) (map cells (columns df))"

definition is_numeric :: "dtype \<Rightarrow> bool" where
  "is_numeric t \<longleftrightarrow> t = Int64 \<or> t = Float64"

definition no_nan :: "frame \<Rightarrow> bool" where
  "no_nan df \<longleftrightarrow> list_all (\<lambda>k. VNaN \<notin> set (cells k)) (columns df)"

lemmas [frame_defs] = nrows_def ncols_def shape_def column_names_def has_column_def

lemma cell_ok_Object [simp]: "list_all (cell_ok Object) cs"
  by (simp add: list_all_iff)

lemma cell_ok_Int64_iff: "cell_ok Int64 c \<longleftrightarrow> (\<exists>i. c = VInt i)"
  by (cases c) simp_all

lemma cell_ok_Float64_iff: "cell_ok Float64 c \<longleftrightarrow> c = VNaN \<or> (\<exists>r. c = VFloat r)"
  by (cases c) simp_all

lemma cell_ok_not_NaN_numeric: "cell_ok Int64 c \<Longrightarrow> c \<noteq> VNaN"
  by (cases c) simp_all

lemma wf_frameD:
  "wf_frame df \<Longrightarrow> k \<in> set (columns df) \<Longrightarrow> length (cells k) = nrows df"
  by (auto simp: wf_frame_def wf_column_def list_all_iff)

lemma wf_frame_cell_ok:
  "wf_frame df \<Longrightarrow> k \<in> set (columns df) \<Longrightarrow> c \<in> set (cells k) \<Longrightarrow> cell_ok (ctype k) c"
  by (auto simp: wf_frame_def wf_column_def list_all_iff)

lemma wf_frame_lengths:
  "wf_frame df \<Longrightarrow> list_all (\<lambda>c. length c = nrows df) (map cells (columns df))"
  by (auto simp: wf_frame_def wf_column_def list_all_iff)

lemma length_rows [shape_simps]: "wf_frame df \<Longrightarrow> length (rows df) = nrows df"
  by (simp add: rows_def wf_frame_lengths)

lemma rows_width: "wf_frame df \<Longrightarrow> r \<in> set (rows df) \<Longrightarrow> length r = ncols df"
  using rows_of_width [OF wf_frame_lengths, of df r] by (simp add: rows_def ncols_def)

section \<open>Looking a column up\<close>

text \<open>
  \<^verbatim>\<open>df['team']\<close> raises \<^verbatim>\<open>KeyError\<close> and \<^verbatim>\<open>df.Age\<close> raises \<^verbatim>\<open>AttributeError\<close> when
  no column has the name. Where several columns share a name the first is taken.
\<close>

definition find_column :: "string \<Rightarrow> frame \<Rightarrow> column option" where
  "find_column c df = find (\<lambda>k. cname k = c) (columns df)"

definition get_column :: "string \<Rightarrow> frame \<Rightarrow> column result" where
  "get_column c df = (case find_column c df of None \<Rightarrow> Inl (KeyError c) | Some k \<Rightarrow> Inr k)"

definition get_attr :: "string \<Rightarrow> frame \<Rightarrow> column result" where
  "get_attr c df = (case find_column c df of None \<Rightarrow> Inl (AttributeError c) | Some k \<Rightarrow> Inr k)"

lemma find_column_None_iff: "find_column c df = None \<longleftrightarrow> \<not> has_column c df"
  by (auto simp: find_column_def find_None_iff has_column_def column_names_def)

lemma find_column_SomeD:
  "find_column c df = Some k \<Longrightarrow> k \<in> set (columns df) \<and> cname k = c"
  by (auto simp: find_column_def find_Some_iff)

lemma find_column_Some_ex: "has_column c df \<Longrightarrow> \<exists>k. find_column c df = Some k"
  using find_column_None_iff [of c df] by auto

lemma find_column_Some_has: "find_column c df = Some k \<Longrightarrow> has_column c df"
  using find_column_None_iff [of c df] by simp

lemma get_column_absent: "\<not> has_column c df \<Longrightarrow> get_column c df = Inl (KeyError c)"
  using find_column_None_iff [of c df] by (simp add: get_column_def)

lemma get_attr_absent: "\<not> has_column c df \<Longrightarrow> get_attr c df = Inl (AttributeError c)"
  using find_column_None_iff [of c df] by (simp add: get_attr_def)

lemma get_column_Inr_iff:
  "get_column c df = Inr k \<longleftrightarrow> find_column c df = Some k"
  by (simp add: get_column_def split: option.splits)

lemma get_attr_Inr_iff:
  "get_attr c df = Inr k \<longleftrightarrow> find_column c df = Some k"
  by (simp add: get_attr_def split: option.splits)

lemma get_column_present: "has_column c df \<Longrightarrow> \<exists>k. get_column c df = Inr k"
  by (drule find_column_Some_ex) (auto simp: get_column_Inr_iff)

lemma get_attr_present: "has_column c df \<Longrightarrow> \<exists>k. get_attr c df = Inr k"
  by (drule find_column_Some_ex) (auto simp: get_attr_Inr_iff)

lemma get_column_Inl_iff:
  "get_column c df = Inl e \<longleftrightarrow> \<not> has_column c df \<and> e = KeyError c"
  by (cases "has_column c df") (auto simp: get_column_absent dest: get_column_present)

lemma get_attr_Inl_iff:
  "get_attr c df = Inl e \<longleftrightarrow> \<not> has_column c df \<and> e = AttributeError c"
  by (cases "has_column c df") (auto simp: get_attr_absent dest: get_attr_present)

lemma is_ok_get_column [simp]: "is_ok (get_column c df) \<longleftrightarrow> has_column c df"
  by (cases "has_column c df") (auto simp: get_column_absent dest: get_column_present)

lemma is_ok_get_attr [simp]: "is_ok (get_attr c df) \<longleftrightarrow> has_column c df"
  by (cases "has_column c df") (auto simp: get_attr_absent dest: get_attr_present)

lemma find_column_wf:
  "wf_frame df \<Longrightarrow> find_column c df = Some k \<Longrightarrow> length (cells k) = nrows df"
  using find_column_SomeD [of c df k] by (simp add: wf_frameD)

section \<open>Cells of a row by column name\<close>

text \<open>
  \<open>column_position c df\<close> is the place of the first column named \<open>c\<close>, so that
  \<open>row_cell c df r\<close> is the cell of row \<open>r\<close> in that column: the row view of \<^verbatim>\<open>df[c]\<close>.
\<close>

definition column_position :: "string \<Rightarrow> frame \<Rightarrow> nat" where
  "column_position c df = length (takeWhile (\<lambda>k. cname k \<noteq> c) (columns df))"

definition row_cell :: "string \<Rightarrow> frame \<Rightarrow> cell list \<Rightarrow> cell" where
  "row_cell c df r = r ! column_position c df"

lemma column_position_find:
  "find_column c df = Some k \<Longrightarrow>
   column_position c df < ncols df \<and> columns df ! column_position c df = k"
  using find_position [of "\<lambda>k. cname k = c" "columns df" k]
  by (simp add: find_column_def column_position_def ncols_def)

lemma rows_column:
  assumes "wf_frame df" and "j < ncols df"
  shows "map (\<lambda>r. r ! j) (rows df) = cells (columns df ! j)"
proof (rule nth_equalityI)
  from assms have len: "length (cells (columns df ! j)) = nrows df"
    by (simp add: wf_frameD ncols_def)
  with assms(1) show "length (map (\<lambda>r. r ! j) (rows df)) = length (cells (columns df ! j))"
    by (simp add: length_rows)
  fix i assume "i < length (map (\<lambda>r. r ! j) (rows df))"
  with assms(1) have i: "i < nrows df"
    by (simp add: length_rows)
  with assms(1) have "rows df ! i = map (\<lambda>c. c ! i) (map cells (columns df))"
    unfolding rows_def by (intro rows_of_nth wf_frame_lengths)
  with assms i show "map (\<lambda>r. r ! j) (rows df) ! i = cells (columns df ! j) ! i"
    by (simp add: length_rows ncols_def)
qed

lemma row_cell_column:
  "wf_frame df \<Longrightarrow> find_column c df = Some k \<Longrightarrow> map (row_cell c df) (rows df) = cells k"
  using rows_column [of df "column_position c df"] column_position_find [of c df k]
  by (simp add: row_cell_def [abs_def])

section \<open>Masks\<close>

text \<open>
  A comparison of a column with a string, and a membership test of a column in a list of
  strings, give one boolean per row. A cell equals a string only if it holds that string:
  \<^verbatim>\<open>0 == '0'\<close> is false in Python.
\<close>

definition eq_str :: "column \<Rightarrow> string \<Rightarrow> mask" where
  "eq_str k s = map (\<lambda>c. c = VStr s) (cells k)"

fun cell_in :: "string list \<Rightarrow> cell \<Rightarrow> bool" where
  "cell_in vs (VStr s) = (s \<in> set vs)"
| "cell_in vs c = False"

definition isin :: "column \<Rightarrow> string list \<Rightarrow> mask" where
  "isin k vs = map (cell_in vs) (cells k)"

definition mask_and :: "mask \<Rightarrow> mask \<Rightarrow> mask" where
  "mask_and a b = map2 (\<and>) a b"

lemma length_eq_str [simp]: "length (eq_str k s) = length (cells k)"
  by (simp add: eq_str_def)

lemma length_isin [simp]: "length (isin k vs) = length (cells k)"
  by (simp add: isin_def)

lemma length_mask_and [simp]: "length (mask_and a b) = min (length a) (length b)"
  by (simp add: mask_and_def)

lemma cell_in_iff: "cell_in vs c \<longleftrightarrow> (\<exists>s \<in> set vs. c = VStr s)"
  by (cases c) auto

lemma cell_in_Nil [simp]: "\<not> cell_in [] c"
  by (cases c) simp_all

lemma isin_Nil [simp]: "isin k [] = replicate (length (cells k)) False"
  by (simp add: isin_def map_eq_replicate)

lemma cell_in_mono: "set vs \<subseteq> set ws \<Longrightarrow> cell_in vs c \<Longrightarrow> cell_in ws c"
  by (cases c) auto

lemma mask_and_nth:
  "i < length a \<Longrightarrow> i < length b \<Longrightarrow> mask_and a b ! i \<longleftrightarrow> a ! i \<and> b ! i"
  by (simp add: mask_and_def)

lemma mask_and_replicate_False [simp]:
  "mask_and (replicate n False) b = replicate (min n (length b)) False"
proof (induction n arbitrary: b)
  case 0
  show ?case by (simp add: mask_and_def)
next
  case (Suc n)
  from Suc [unfolded mask_and_def] show ?case
    by (cases b) (simp_all add: mask_and_def)
qed

lemma mask_and_replicate_True [simp]:
  "length b = n \<Longrightarrow> mask_and (replicate n True) b = b"
proof (induction n arbitrary: b)
  case 0
  then show ?case by (simp add: mask_and_def)
next
  case (Suc n)
  from Suc.prems obtain x xs where "b = x # xs" and "length xs = n"
    by (cases b) simp_all
  with Suc.IH [of xs] show ?case
    by (simp add: mask_and_def)
qed

lemma isin_all_True:
  "\<forall>c \<in> set (cells k). cell_in vs c \<Longrightarrow> isin k vs = replicate (length (cells k)) True"
  by (simp add: isin_def map_eq_replicate)

section \<open>Selecting and dropping rows\<close>

text \<open>
  \<^verbatim>\<open>df[mask]\<close> keeps the rows whose mask entry is true, with their labels;
  \<^verbatim>\<open>df.drop(labels)\<close> removes every row whose label is listed and raises
  \<^verbatim>\<open>KeyError\<close> when a listed label is not a label of the table.
\<close>

definition select_cells :: "mask \<Rightarrow> column \<Rightarrow> column" where
  "select_cells m k = k\<lparr>cells := select_mask m (cells k)\<rparr>"

definition select_rows :: "mask \<Rightarrow> frame \<Rightarrow> frame" where
  "select_rows m df =
     df\<lparr>index := select_mask m (index df), columns := map (select_cells m) (columns df)\<rparr>"

definition drop_rows :: "nat list \<Rightarrow> frame \<Rightarrow> frame result" where
  "drop_rows labels df =
     (case filter (\<lambda>l. l \<notin> set (index df)) labels of
        [] \<Rightarrow> Inr (select_rows (map (\<lambda>l. l \<notin> set labels) (index df)) df)
      | l # ls \<Rightarrow> Inl (KeyError (str_of_nat l)))"

lemma select_cells_simps [simp]:
  "cname (select_cells m k) = cname k"
  "ctype (select_cells m k) = ctype k"
  "cells (select_cells m k) = select_mask m (cells k)"
  by (simp_all add: select_cells_def)

lemma select_rows_simps [simp]:
  "index (select_rows m df) = select_mask m (index df)"
  "columns (select_rows m df) = map (select_cells m) (columns df)"
  by (simp_all add: select_rows_def)

lemma column_names_select_rows [simp]: "column_names (select_rows m df) = column_names df"
  by (simp add: column_names_def)

lemma has_column_select_rows [simp]: "has_column c (select_rows m df) = has_column c df"
  by (simp add: has_column_def)

lemma ncols_select_rows [simp, shape_simps]: "ncols (select_rows m df) = ncols df"
  by (simp add: ncols_def)

lemma nrows_select_rows [shape_simps]:
  "length m = nrows df \<Longrightarrow> nrows (select_rows m df) = length (filter id m)"
  by (simp add: nrows_def length_select_mask)

lemma nrows_select_rows_le: "nrows (select_rows m df) \<le> nrows df"
  by (simp add: nrows_def)

lemma wf_select_rows [wf_intros]:
  "wf_frame df \<Longrightarrow> length m = nrows df \<Longrightarrow> wf_frame (select_rows m df)"
  by (auto simp: wf_frame_def wf_column_def list_all_iff nrows_def length_select_mask
      dest: subsetD [OF set_select_mask_subset])

lemma find_column_select_rows:
  "find_column c (select_rows m df) = map_option (select_cells m) (find_column c df)"
  by (simp add: find_column_def find_map_list comp_def)

lemma rows_select_rows:
  "wf_frame df \<Longrightarrow> length m = nrows df \<Longrightarrow> rows (select_rows m df) = select_mask m (rows df)"
  using rows_of_select_mask [of m "nrows df" "map cells (columns df)"]
  by (simp add: rows_def wf_frame_lengths nrows_select_rows comp_def)

lemma select_rows_all_True:
  "wf_frame df \<Longrightarrow> m = replicate (nrows df) True \<Longrightarrow> select_rows m df = df"
proof -
  assume wf: "wf_frame df" and m: "m = replicate (nrows df) True"
  have "map (select_cells m) (columns df) = columns df"
  proof (rule map_idI)
    fix k assume "k \<in> set (columns df)"
    with wf have "length (cells k) = nrows df"
      by (rule wf_frameD)
    with m show "select_cells m k = k"
      by (simp add: select_cells_def)
  qed
  with m show ?thesis
    by (simp add: select_rows_def nrows_def)
qed

lemma nrows_select_rows_all_False [simp]:
  "nrows (select_rows (replicate n False) df) = 0"
  by (simp add: nrows_def)

lemma rows_select_rows_all_False:
  "wf_frame df \<Longrightarrow> rows (select_rows (replicate (nrows df) False) df) = []"
  by (simp add: rows_select_rows)

lemma drop_rows_known:
  "set labels \<subseteq> set (index df) \<Longrightarrow>
   drop_rows labels df = Inr (select_rows (map (\<lambda>l. l \<notin> set labels) (index df)) df)"
proof -
  assume "set labels \<subseteq> set (index df)"
  then have "filter (\<lambda>l. l \<notin> set (index df)) labels = []"
    by (auto simp: filter_empty_conv)
  then show ?thesis
    by (simp add: drop_rows_def)
qed

lemma drop_rows_unknown:
  "\<not> set labels \<subseteq> set (index df) \<Longrightarrow> \<exists>l. drop_rows labels df = Inl (KeyError l)"
proof -
  assume "\<not> set labels \<subseteq> set (index df)"
  then have "filter (\<lambda>l. l \<notin> set (index df)) labels \<noteq> []"
    by (auto simp: filter_empty_conv)
  then show ?thesis
    by (cases "filter (\<lambda>l. l \<notin> set (index df)) labels") (simp_all add: drop_rows_def)
qed

lemma drop_rows_selected:
  "drop_rows (select_mask m (index df)) df =
   Inr (select_rows (map (\<lambda>l. l \<notin> set (select_mask m (index df))) (index df)) df)"
  using set_select_mask_subset [of m "index df"] by (simp add: drop_rows_known)

lemma drop_rows_selected_distinct:
  assumes "distinct (index df)" and "length m = nrows df"
  shows "drop_rows (index (select_rows m df)) df = Inr (select_rows (map Not m) df)"
proof -
  from assms have "map (\<lambda>l. l \<in> set (select_mask m (index df))) (index df) = m"
    by (simp add: mem_select_mask_distinct nrows_def)
  then have "map Not m = map Not (map (\<lambda>l. l \<in> set (select_mask m (index df))) (index df))"
    by simp
  then have "map Not m = map (\<lambda>l. l \<notin> set (select_mask m (index df))) (index df)"
    by (simp add: comp_def)
  then show ?thesis
    by (simp add: drop_rows_selected)
qed

section \<open>Filling missing values\<close>

text \<open>
  \<^verbatim>\<open>df.fillna(v)\<close> with an integer \<open>v\<close> replaces every missing cell: by the float
  \<open>v\<close> in a float column (which keeps its type), by the integer itself elsewhere.
\<close>

fun fillna_cell :: "dtype \<Rightarrow> int \<Rightarrow> cell \<Rightarrow> cell" where
  "fillna_cell Float64 v VNaN = VFloat (of_int v)"
| "fillna_cell t v VNaN = VInt v"
| "fillna_cell t v c = c"

definition fillna_column :: "int \<Rightarrow> column \<Rightarrow> column" where
  "fillna_column v k = k\<lparr>cells := map (fillna_cell (ctype k) v) (cells k)\<rparr>"

definition fillna :: "int \<Rightarrow> frame \<Rightarrow> frame" where
  "fillna v df = df\<lparr>columns := map (fillna_column v) (columns df)\<rparr>"

lemma fillna_cell_not_NaN [simp]:
  "fillna_cell t v c \<noteq> VNaN" "VNaN \<noteq> fillna_cell t v c"
  by (cases "(t, v, c)" rule: fillna_cell.cases; simp)+

lemma fillna_cell_id: "c \<noteq> VNaN \<Longrightarrow> fillna_cell t v c = c"
  by (cases "(t, v, c)" rule: fillna_cell.cases) simp_all

lemma fillna_cell_ok: "cell_ok t c \<Longrightarrow> cell_ok t (fillna_cell t v c)"
  by (cases "(t, v, c)" rule: fillna_cell.cases) simp_all

lemma fillna_cell_eq_VStr [simp]:
  "fillna_cell t v c = VStr s \<longleftrightarrow> c = VStr s"
  "VStr s = fillna_cell t v c \<longleftrightarrow> c = VStr s"
  by (cases "(t, v, c)" rule: fillna_cell.cases; auto)+

lemma fillna_column_simps [simp]:
  "cname (fillna_column v k) = cname k"
  "ctype (fillna_column v k) = ctype k"
  "cells (fillna_column v k) = map (fillna_cell (ctype k) v) (cells k)"
  by (simp_all add: fillna_column_def)

lemma fillna_simps [simp]:
  "index (fillna v df) = index df"
  "columns (fillna v df) = map (fillna_column v) (columns df)"
  by (simp_all add: fillna_def)

lemma nrows_fillna [simp, shape_simps]: "nrows (fillna v df) = nrows df"
  by (simp add: nrows_def)

lemma ncols_fillna [simp, shape_simps]: "ncols (fillna v df) = ncols df"
  by (simp add: ncols_def)

lemma column_names_fillna [simp]: "column_names (fillna v df) = column_names df"
  by (simp add: column_names_def)

lemma has_column_fillna [simp]: "has_column c (fillna v df) = has_column c df"
  by (simp add: has_column_def)

lemma find_column_fillna:
  "find_column c (fillna v df) = map_option (fillna_column v) (find_column c df)"
  by (simp add: find_column_def find_map_list comp_def)

lemma wf_fillna [wf_intros]: "wf_frame df \<Longrightarrow> wf_frame (fillna v df)"
  by (auto simp: wf_frame_def wf_column_def list_all_iff fillna_cell_ok)

lemma no_nan_fillna [simp]: "no_nan (fillna v df)"
  by (auto simp: no_nan_def list_all_iff)

lemma fillna_no_nan_id: "no_nan df \<Longrightarrow> fillna v df = df"
proof -
  assume nn: "no_nan df"
  have "map (fillna_column v) (columns df) = columns df"
  proof (rule map_idI)
    fix k assume "k \<in> set (columns df)"
    with nn have "VNaN \<notin> set (cells k)"
      by (simp add: no_nan_def list_all_iff)
    then have "map (fillna_cell (ctype k) v) (cells k) = cells k"
      by (intro map_idI fillna_cell_id) auto
    then show "fillna_column v k = k"
      by (simp add: fillna_column_def)
  qed
  then show ?thesis
    by (simp add: fillna_def)
qed

lemma fillna_idem [simp]: "fillna v (fillna w df) = fillna w df"
  by (rule fillna_no_nan_id) simp

lemma no_nan_select_rows: "no_nan df \<Longrightarrow> no_nan (select_rows m df)"
  by (auto simp: no_nan_def list_all_iff dest: subsetD [OF set_select_mask_subset])

lemma fillna_select_rows: "fillna v (select_rows m df) = select_rows m (fillna v df)"
  by (simp add: fillna_def select_rows_def fillna_column_def select_cells_def select_mask_map)

section \<open>Dropping, renaming and converting columns\<close>

text \<open>
  \<^verbatim>\<open>df.drop(names, axis=1)\<close> removes every column whose name is listed and raises
  \<^verbatim>\<open>KeyError\<close> when a listed name is no column. Assigning to \<^verbatim>\<open>df.columns\<close> the
  image of the names under a string function renames every column. \<^verbatim>\<open>df[c] =
  f(df[c])\<close> replaces the contents of the columns named \<open>c\<close> and raises \<^verbatim>\<open>KeyError\<close>
  when there is none.
\<close>

definition drop_columns :: "string list \<Rightarrow> frame \<Rightarrow> frame result" where
  "drop_columns names df =
     (case filter (\<lambda>n. \<not> has_column n df) names of
        [] \<Rightarrow> Inr (df\<lparr>columns := filter (\<lambda>k. cname k \<notin> set names) (columns df)\<rparr>)
      | n # ns \<Rightarrow> Inl (KeyError n))"

definition rename_columns :: "(string \<Rightarrow> string) \<Rightarrow> frame \<Rightarrow> frame" where
  "rename_columns f df = df\<lparr>columns := map (\<lambda>k. k\<lparr>cname := f (cname k)\<rparr>) (columns df)\<rparr>"

definition update_column :: "string \<Rightarrow> (column \<Rightarrow> column) \<Rightarrow> frame \<Rightarrow> frame result" where
  "update_column c f df =
     (if has_column c df
      then Inr (df\<lparr>columns := map (\<lambda>k. if cname k = c then (f k)\<lparr>cname := c\<rparr> else k) (columns df)\<rparr>)
      else Inl (KeyError c))"

fun str_of_cell :: "(rat \<Rightarrow> string) \<Rightarrow> cell \<Rightarrow> string" where
  "str_of_cell fr (VStr s) = s"
| "str_of_cell fr (VInt i) = str_of_int i"
| "str_of_cell fr (VFloat r) = fr r"
| "str_of_cell fr VNaN = ''nan''"

definition astype_str :: "(rat \<Rightarrow> string) \<Rightarrow> column \<Rightarrow> column" where
  "astype_str fr k = k\<lparr>ctype := Object, cells := map (\<lambda>c. VStr (str_of_cell fr c)) (cells k)\<rparr>"

lemma drop_columns_present:
  "set names \<subseteq> set (column_names df) \<Longrightarrow>
   drop_columns names df = Inr (df\<lparr>columns := filter (\<lambda>k. cname k \<notin> set names) (columns df)\<rparr>)"
proof -
  assume "set names \<subseteq> set (column_names df)"
  then have "filter (\<lambda>n. \<not> has_column n df) names = []"
    by (auto simp: filter_empty_conv has_column_def)
  then show ?thesis
    by (simp add: drop_columns_def)
qed

lemma drop_columns_single:
  "drop_columns [c] df =
   (if has_column c df then Inr (df\<lparr>columns := filter (\<lambda>k. cname k \<noteq> c) (columns df)\<rparr>)
    else Inl (KeyError c))"
  by (simp add: drop_columns_def)

lemma drop_columns_Inr:
  assumes "drop_columns names df = Inr df'"
  shows "index df' = index df"
    and "columns df' = filter (\<lambda>k. cname k \<notin> set names) (columns df)"
    and "set names \<subseteq> set (column_names df)"
  using assms
  by (auto simp: drop_columns_def has_column_def filter_empty_conv split: list.splits)

lemma wf_drop_columns:
  assumes "wf_frame df" and "drop_columns names df = Inr df'"
  shows "wf_frame df'"
  using assms(1) drop_columns_Inr(1,2) [OF assms(2)]
  by (auto simp: wf_frame_def list_all_iff nrows_def)

lemma no_nan_drop_columns:
  assumes "no_nan df" and "drop_columns names df = Inr df'"
  shows "no_nan df'"
  using assms(1) drop_columns_Inr(2) [OF assms(2)]
  by (auto simp: no_nan_def list_all_iff)

lemma has_column_drop_columns:
  assumes "drop_columns names df = Inr df'"
  shows "has_column c df' \<longleftrightarrow> has_column c df \<and> c \<notin> set names"
  using drop_columns_Inr(2) [OF assms]
  by (auto simp: has_column_def column_names_def)

lemma find_column_drop_columns:
  assumes "drop_columns names df = Inr df'" and "c \<notin> set names"
  shows "find_column c df' = find_column c df"
proof -
  have "find (\<lambda>k. cname k = c) (filter (\<lambda>k. cname k \<notin> set names) ks) = find (\<lambda>k. cname k = c) ks"
    for ks :: "column list"
    using assms(2) by (induction ks) auto
  with drop_columns_Inr(2) [OF assms(1)] show ?thesis
    by (simp add: find_column_def)
qed

lemma rename_columns_simps [simp]:
  "index (rename_columns f df) = index df"
  "columns (rename_columns f df) = map (\<lambda>k. k\<lparr>cname := f (cname k)\<rparr>) (columns df)"
  by (simp_all add: rename_columns_def)

lemma column_names_rename_columns [simp]:
  "column_names (rename_columns f df) = map f (column_names df)"
  by (simp add: column_names_def comp_def)

lemma nrows_rename_columns [simp, shape_simps]: "nrows (rename_columns f df) = nrows df"
  by (simp add: nrows_def)

lemma ncols_rename_columns [simp, shape_simps]: "ncols (rename_columns f df) = ncols df"
  by (simp add: ncols_def)

lemma wf_rename_columns [wf_intros]: "wf_frame df \<Longrightarrow> wf_frame (rename_columns f df)"
  by (auto simp: wf_frame_def wf_column_def list_all_iff)

lemma rows_rename_columns [simp]: "rows (rename_columns f df) = rows df"
  by (simp add: rows_def comp_def)

lemma no_nan_rename_columns [simp]: "no_nan (rename_columns f df) = no_nan df"
  by (simp add: no_nan_def list_all_iff)

lemma update_column_Inr:
  assumes "update_column c f df = Inr df'"
  shows "index df' = index df"
    and "columns df' = map (\<lambda>k. if cname k = c then (f k)\<lparr>cname := c\<rparr> else k) (columns df)"
    and "has_column c df"
  using assms by (auto simp: update_column_def split: if_splits)

lemma update_column_absent: "\<not> has_column c df \<Longrightarrow> update_column c f df = Inl (KeyError c)"
  by (simp add: update_column_def)

lemma column_names_update_column:
  "update_column c f df = Inr df' \<Longrightarrow> column_names df' = column_names df"
  by (auto simp: column_names_def dest: update_column_Inr(2))

lemma nrows_update_column [shape_simps]:
  "update_column c f df = Inr df' \<Longrightarrow> nrows df' = nrows df"
  by (simp add: nrows_def update_column_Inr(1))

lemma ncols_update_column [shape_simps]:
  "update_column c f df = Inr df' \<Longrightarrow> ncols df' = ncols df"
  by (simp add: ncols_def update_column_Inr(2))

lemma wf_update_column:
  assumes "wf_frame df" and "update_column c f df = Inr df'"
    and "\<And>k. k \<in> set (columns df) \<Longrightarrow> wf_column (nrows df) (f k)"
  shows "wf_frame df'"
  using assms(1,3) update_column_Inr(1,2) [OF assms(2)]
  by (auto simp: wf_frame_def list_all_iff nrows_def wf_column_def)

lemma astype_str_simps [simp]:
  "cname (astype_str fr k) = cname k"
  "ctype (astype_str fr k) = Object"
  "cells (astype_str fr k) = map (\<lambda>c. VStr (str_of_cell fr c)) (cells k)"
  by (simp_all add: astype_str_def)

lemma wf_column_astype_str: "length (cells k) = n \<Longrightarrow> wf_column n (astype_str fr k)"
  by (simp add: wf_column_def)

lemma astype_str_all_str: "c \<in> set (cells (astype_str fr k)) \<Longrightarrow> \<exists>s. c = VStr s"
  by auto

lemma astype_str_VStr_id: "\<forall>c \<in> set (cells k). \<exists>s. c = VStr s \<Longrightarrow>
  cells (astype_str fr k) = cells k"
  by (auto intro!: map_idI)

end
