(* ===== verification/Example_Data.thy ===== *)
theory Example_Data
  imports Frame
begin

text \<open>
  Concrete tables on which the theorems of the development are instantiated. \<open>raw_page\<close>
  is a page as the HTML reader returns it when the header row is repeated inside the body:
  every column holds text, the repeated header is row 1, and two cells are missing.
  \<open>clean_page\<close> is what the loader makes of it, and \<open>spec_table\<close> is the two-row table
  of the specification's example and \<open>bos_only\<close> its restriction to the team
  \<^verbatim>\<open>BOS\<close>; \<open>prepared_page\<close> is \<open>clean_page\<close> after lines 44-45; \<open>pts_only\<close> has a
  single numeric column.
\<close>

definition obj :: "string \<Rightarrow> cell list \<Rightarrow> column" where
  "obj n cs = \<lparr>cname = n, ctype = Object, cells = cs\<rparr>"

definition raw_page :: frame where
  "raw_page = \<lparr>index = [0, 1, 2, 3], columns =
     [obj ''Rk'' [VStr ''1'', VStr ''Rk'', VStr ''2'', VStr ''3''],
      obj ''Player'' [VStr ''A'', VStr ''Player'', VStr ''B'', VStr ''C''],
      obj ''Age'' [VStr ''25'', VStr ''Age'', VStr ''30'', VStr ''22''],
      obj ''Team'' [VStr ''BOS'', VStr ''Team'', VStr ''LAL'', VNaN],
      obj ''Pos'' [VStr ''PG'', VStr ''Pos'', VStr ''SF'', VStr ''SF-SG''],
      obj ''PTS'' [VStr ''30.0'', VStr ''PTS'', VStr ''10.0'', VNaN]]\<rparr>"

definition clean_page :: frame where
  "clean_page = \<lparr>index = [0, 2, 3], columns =
     [obj ''Player'' [VStr ''A'', VStr ''B'', VStr ''C''],
      obj ''Age'' [VStr ''25'', VStr ''30'', VStr ''22''],
      obj ''Team'' [VStr ''BOS'', VStr ''LAL'', VInt 0],
      obj ''Pos'' [VStr ''PG'', VStr ''SF'', VStr ''SF-SG''],
      obj ''PTS'' [VStr ''30.0'', VStr ''10.0'', VInt 0]]\<rparr>"

definition spec_table :: frame where
  "spec_table = \<lparr>index = [0, 1], columns =
     [obj ''player'' [VStr ''A'', VStr ''B''],
      obj ''team'' [VStr ''BOS'', VStr ''LAL''],
      obj ''pos'' [VStr ''PG'', VStr ''SF''],
      \<lparr>cname = ''pts'', ctype = Int64, cells = [VInt 30, VInt 10]\<rparr>]\<rparr>"

definition bos_only :: frame where
  "bos_only = \<lparr>index = [0], columns =
     [obj ''player'' [VStr ''A''],
      obj ''team'' [VStr ''BOS''],
      obj ''pos'' [VStr ''PG''],
      \<lparr>cname = ''pts'', ctype = Int64, cells = [VInt 30]\<rparr>]\<rparr>"

definition prepared_page :: frame where
  "prepared_page = \<lparr>index = [0, 2, 3], columns =
     [obj ''player'' [VStr ''A'', VStr ''B'', VStr ''C''],
      obj ''age'' [VStr ''25'', VStr ''30'', VStr ''22''],
      obj ''team'' [VStr ''BOS'', VStr ''LAL'', VStr ''0''],
      obj ''pos'' [VStr ''PG'', VStr ''SF'', VStr ''SF-SG''],
      obj ''pts'' [VStr ''30.0'', VStr ''10.0'', VInt 0]]\<rparr>"

definition pts_only :: frame where
  "pts_only = \<lparr>index = [0, 1], columns =
     [\<lparr>cname = ''PTS'', ctype = Int64, cells = [VInt 30, VInt 10]\<rparr>]\<rparr>"

lemmas example_defs =
  obj_def raw_page_def clean_page_def spec_table_def pts_only_def bos_only_def prepared_page_def

lemmas eval_defs =
  nrows_def ncols_def wf_frame_def wf_column_def has_column_def column_names_def no_nan_def
  find_column_def get_column_def get_attr_def eq_str_def isin_def mask_and_def
  select_rows_def select_cells_def drop_rows_def fillna_def fillna_column_def
  drop_columns_def rename_columns_def update_column_def astype_str_def rows_def
  column_position_def row_cell_def

lemma wf_raw_page: "wf_frame raw_page"
  by (simp add: example_defs eval_defs)

lemma wf_clean_page: "wf_frame clean_page"
  by (simp add: example_defs eval_defs)

lemma wf_spec_table: "wf_frame spec_table"
  by (simp add: example_defs eval_defs)

lemma wf_prepared_page: "wf_frame prepared_page"
  by (simp add: example_defs eval_defs)

lemma rows_spec_table:
  "rows spec_table = [[VStr ''A'', VStr ''BOS'', VStr ''PG'', VInt 30],
                      [VStr ''B'', VStr ''LAL'', VStr ''SF'', VInt 10]]"
  by (simp add: example_defs eval_defs numeral_2_eq_2)

lemma rows_prepared_page:
  "rows prepared_page =
     [[VStr ''A'', VStr ''25'', VStr ''BOS'', VStr ''PG'', VStr ''30.0''],
      [VStr ''B'', VStr ''30'', VStr ''LAL'', VStr ''SF'', VStr ''10.0''],
      [VStr ''C'', VStr ''22'', VStr ''0'', VStr ''SF-SG'', VInt 0]]"
  by (simp add: example_defs eval_defs numeral_3_eq_3)

lemma distinct_index_raw_page: "distinct (index raw_page)"
  by (simp add: example_defs)

end
