(* ===== verification/Loader.thy ===== *)
theory Loader
  imports Example_Data
begin

text \<open>
  The data loader of \<^verbatim>\<open>src/eda.py\<close>: the year selector's options (line 29), the URL of a
  season's page and the function \<^verbatim>\<open>load_data\<close> (lines 31-39) with the cleaning steps
  it performs, and the memoisation \<^verbatim>\<open>@st.cache_data\<close> puts around it (lines 31, 41).
  The HTML fetch and table extraction (\<^verbatim>\<open>pd.read_html\<close>) is the outside world: it is
  a parameter of the model, a function from the URL to the list of tables of the page or
  to an error, of which nothing is assumed. The lemmas give the shape of every outcome of
  \<^verbatim>\<open>load_data\<close>: when it raises and what; and when it returns, that the table has no
  repeated header row, no missing value and no rank column; and that dropping rows by the
  labels of a selection is the same as keeping the complement when labels are distinct.
\<close>

section \<open>The year selector\<close>

definition year_options :: "int list" where
  "year_options = rev (map int [1950..<2024])"

lemma set_year_options: "set year_options = {1950..2023}"
proof -
  have "int ` {1950..<2024} = {1950..<2024}"
    by (simp add: image_int_atLeastLessThan)
  also have "\<dots> = {1950..2023::int}"
    by auto
  finally show ?thesis
    by (simp only: year_options_def set_rev list.set_map set_upt)
qed

lemma length_year_options: "length year_options = 74"
  unfolding year_options_def by (simp only: length_rev length_map length_upt)

lemma distinct_year_options: "distinct year_options"
  unfolding year_options_def
  by (simp only: distinct_rev distinct_map distinct_upt inj_on_of_nat simp_thms)

lemma year_options_descending: "sorted (rev year_options)"
  unfolding year_options_def
  by (simp only: rev_rev_ident sorted_map of_nat_le_iff sorted_upt)

lemma hd_year_options: "hd year_options = 2023"
  unfolding year_options_def by (simp only: hd_rev) (simp add: last_map)

section \<open>The page of a season\<close>

definition url_of_year :: "int \<Rightarrow> string" where
  "url_of_year year =
     ''https://www.basketball-reference.com/leagues/NBA_'' @ str_of_int year @ ''_per_game.html''"

lemma url_of_year_inject [simp]: "url_of_year y = url_of_year z \<longleftrightarrow> y = z"
proof
  assume "url_of_year y = url_of_year z"
  then have "str_of_int y @ ''_per_game.html'' = str_of_int z @ ''_per_game.html''"
    unfolding url_of_year_def by (simp only: same_append_eq)
  then show "y = z"
    by simp
qed simp

section \<open>Loading and cleaning\<close>

type_synonym read_html = "string \<Rightarrow> frame list result"

definition first_table :: "frame list \<Rightarrow> frame result" where
  "first_table html = (case html of [] \<Rightarrow> Inl IndexError | df # dfs \<Rightarrow> Inr df)"

definition header_rows :: "frame \<Rightarrow> frame result" where
  "header_rows df = bind_result (get_attr ''Age'' df) (\<lambda>age. Inr (select_rows (eq_str age ''Age'') df))"

definition load_data :: "read_html \<Rightarrow> int \<Rightarrow> frame result" where
  "load_data read_html year =
     bind_result (read_html (url_of_year year)) (\<lambda>html.
     bind_result (first_table html) (\<lambda>df.
     bind_result (header_rows df) (\<lambda>hdr.
     bind_result (drop_rows (index hdr) df) (\<lambda>raw.
     drop_columns [''Rk''] (fillna 0 raw)))))"

text \<open>
  What the cleaning steps promise, stated without row labels: keep the rows whose
  \<^verbatim>\<open>Age\<close> cell is not the header text, fill the missing cells with 0, drop the rank
  column.
\<close>

definition clean :: "frame \<Rightarrow> frame result" where
  "clean df =
     bind_result (get_attr ''Age'' df) (\<lambda>age.
     drop_columns [''Rk''] (fillna 0 (select_rows (map Not (eq_str age ''Age'')) df)))"

definition is_clean :: "frame \<Rightarrow> bool" where
  "is_clean df \<longleftrightarrow>
     wf_frame df \<and> no_nan df \<and> \<not> has_column ''Rk'' df \<and>
     (case find_column ''Age'' df of None \<Rightarrow> False | Some age \<Rightarrow> VStr ''Age'' \<notin> set (cells age))"

lemma first_table_simps [simp]:
  "first_table [] = Inl IndexError"
  "first_table (df # dfs) = Inr df"
  by (simp_all add: first_table_def)

lemma load_data_fetched:
  "read_html (url_of_year year) = Inr (df # dfs) \<Longrightarrow>
   load_data read_html year =
     bind_result (header_rows df) (\<lambda>hdr.
     bind_result (drop_rows (index hdr) df) (\<lambda>raw. drop_columns [''Rk''] (fillna 0 raw)))"
  by (simp add: load_data_def)

lemma header_rows_found:
  "find_column ''Age'' df = Some age \<Longrightarrow> header_rows df = Inr (select_rows (eq_str age ''Age'') df)"
  by (simp add: header_rows_def get_attr_def)

lemma header_rows_absent:
  "\<not> has_column ''Age'' df \<Longrightarrow> header_rows df = Inl (AttributeError ''Age'')"
  by (simp add: header_rows_def get_attr_absent)

text \<open>The table the loader builds from a first table that has both columns.\<close>

definition kept_mask :: "frame \<Rightarrow> column \<Rightarrow> mask" where
  "kept_mask df age =
     map (\<lambda>l. l \<notin> set (select_mask (eq_str age ''Age'') (index df))) (index df)"

lemma length_kept_mask [simp]: "length (kept_mask df age) = nrows df"
  by (simp add: kept_mask_def nrows_def)

lemma load_data_steps:
  assumes "read_html (url_of_year year) = Inr (df # dfs)"
    and "find_column ''Age'' df = Some age"
  shows "load_data read_html year =
         drop_columns [''Rk''] (fillna 0 (select_rows (kept_mask df age) df))"
  using assms
  by (simp add: load_data_fetched header_rows_found drop_rows_selected kept_mask_def)

lemma kept_mask_distinct:
  assumes "wf_frame df" and "distinct (index df)" and "find_column ''Age'' df = Some age"
  shows "kept_mask df age = map Not (eq_str age ''Age'')"
proof -
  from assms(1,3) have len: "length (eq_str age ''Age'') = length (index df)"
    by (simp add: find_column_wf nrows_def)
  with assms(2)
  have "map (\<lambda>l. l \<in> set (select_mask (eq_str age ''Age'') (index df))) (index df)
        = eq_str age ''Age''"
    by (simp add: mem_select_mask_distinct)
  then have "map Not (eq_str age ''Age'')
      = map Not (map (\<lambda>l. l \<in> set (select_mask (eq_str age ''Age'') (index df))) (index df))"
    by simp
  then show ?thesis
    by (simp add: kept_mask_def comp_def)
qed

lemma kept_mask_no_header:
  assumes "wf_frame df" and "find_column ''Age'' df = Some age"
  shows "VStr ''Age'' \<notin> set (select_mask (kept_mask df age) (cells age))"
proof -
  from assms have "length (cells age) = length (index df)"
    by (simp add: find_column_wf nrows_def)
  from select_mask_complement [OF this, of "\<lambda>c. c = VStr ''Age''"] show ?thesis
    by (auto simp: kept_mask_def eq_str_def)
qed

section \<open>What the loader returns\<close>

lemma load_data_example:
  "load_data (\<lambda>u. Inr [raw_page]) 2023 = Inr clean_page"
  by (simp add: load_data_def header_rows_def example_defs eval_defs)

lemma is_clean_example: "is_clean clean_page"
  by (simp add: is_clean_def example_defs eval_defs)

text \<open>
  C3. Every outcome of \<^verbatim>\<open>load_data\<close>: a failed fetch is passed on; a page without
  tables raises \<^verbatim>\<open>IndexError\<close>; a first table without an \<^verbatim>\<open>Age\<close> column raises
  \<^verbatim>\<open>AttributeError\<close>; one with \<^verbatim>\<open>Age\<close> but without \<^verbatim>\<open>Rk\<close> raises \<^verbatim>\<open>KeyError\<close>;
  otherwise the rows whose label is not the label of a header row are kept, filled and
  stripped of the rank column. The row drop itself never raises.
\<close>

theorem load_data_outcome:
  "load_data read_html year =
     (case read_html (url_of_year year) of
        Inl e \<Rightarrow> Inl e
      | Inr [] \<Rightarrow> Inl IndexError
      | Inr (df # dfs) \<Rightarrow>
          (case find_column ''Age'' df of
             None \<Rightarrow> Inl (AttributeError ''Age'')
           | Some age \<Rightarrow>
               if has_column ''Rk'' df
               then Inr ((fillna 0 (select_rows (kept_mask df age) df))
                          \<lparr>columns := filter (\<lambda>k. cname k \<noteq> ''Rk'')
                             (columns (fillna 0 (select_rows (kept_mask df age) df)))\<rparr>)
               else Inl (KeyError ''Rk'')))"
proof (cases "read_html (url_of_year year)")
  case (Inl e)
  then show ?thesis by (simp add: load_data_def)
next
  case (Inr html)
  show ?thesis
  proof (cases html)
    case Nil
    with Inr show ?thesis by (simp add: load_data_def)
  next
    case (Cons df dfs)
    show ?thesis
    proof (cases "find_column ''Age'' df")
      case None
      then have "\<not> has_column ''Age'' df"
        by (simp add: find_column_None_iff)
      with Inr Cons None show ?thesis
        by (simp add: load_data_def header_rows_absent)
    next
      case (Some age)
      from Inr Cons have "read_html (url_of_year year) = Inr (df # dfs)"
        by simp
      from load_data_steps [of read_html, OF this Some] Inr Cons Some show ?thesis
        by (simp add: drop_columns_single)
    qed
  qed
qed

text \<open>
  C2. A table \<^verbatim>\<open>load_data\<close> returns is clean: it is well formed, holds no missing
  value, has no \<^verbatim>\<open>Rk\<close> column, and no cell of its \<^verbatim>\<open>Age\<close> column is the header text
  \<^verbatim>\<open>Age\<close>, whatever the labels of the fetched table are.
\<close>

theorem load_data_clean:
  assumes fetch: "read_html (url_of_year year) = Inr (df0 # dfs)"
    and wf: "wf_frame df0"
    and ret: "load_data read_html year = Inr df"
  shows "is_clean df"
proof -
  from ret obtain hdr where "header_rows df0 = Inr hdr"
    unfolding load_data_fetched [of read_html, OF fetch] by (auto simp: bind_result_eq_Inr)
  then obtain age where age: "find_column ''Age'' df0 = Some age"
    by (auto simp: header_rows_def bind_result_eq_Inr get_attr_Inr_iff)
  let ?sel = "select_rows (kept_mask df0 age) df0"
  from ret have drop: "drop_columns [''Rk''] (fillna 0 ?sel) = Inr df"
    by (simp add: load_data_steps [of read_html, OF fetch age])
  from wf have "wf_frame (fillna 0 ?sel)"
    by (simp add: wf_intros)
  then have 1: "wf_frame df"
    using drop by (rule wf_drop_columns)
  have 2: "no_nan df"
    using no_nan_fillna drop by (rule no_nan_drop_columns)
  from drop have 3: "\<not> has_column ''Rk'' df"
    by (simp add: has_column_drop_columns)
  from drop have "find_column ''Age'' df = find_column ''Age'' (fillna 0 ?sel)"
    by (rule find_column_drop_columns) simp
  with age have 4: "find_column ''Age'' df
      = Some (fillna_column 0 (select_cells (kept_mask df0 age) age))"
    by (simp add: find_column_fillna find_column_select_rows)
  from kept_mask_no_header [OF wf age] 1 2 3 show ?thesis
    unfolding is_clean_def 4 by auto
qed

theorem load_data_clean_witness:
  "wf_frame raw_page \<and> load_data (\<lambda>u. Inr [raw_page]) 2023 = Inr clean_page \<and> is_clean clean_page"
  using load_data_clean [of "\<lambda>u. Inr [raw_page]" 2023 raw_page "[]" clean_page]
  by (simp add: wf_raw_page load_data_example)

text \<open>
  C4. The row labels the HTML reader assigns are distinct, and then dropping the rows that
  carry the label of a header row is keeping the rows whose \<^verbatim>\<open>Age\<close> cell is not the
  header text: \<^verbatim>\<open>load_data\<close> computes \<open>clean\<close> of the first table of the page.
\<close>

theorem load_data_refines_clean:
  assumes "read_html (url_of_year year) = Inr (df0 # dfs)"
    and "wf_frame df0" and "distinct (index df0)"
  shows "load_data read_html year = clean df0"
proof (cases "find_column ''Age'' df0")
  case None
  then have "\<not> has_column ''Age'' df0"
    by (simp add: find_column_None_iff)
  then show ?thesis
    by (simp add: load_data_fetched [of read_html, OF assms(1)] header_rows_absent clean_def
        get_attr_absent)
next
  case (Some age)
  with assms(2,3) show ?thesis
    by (simp add: load_data_steps [of read_html, OF assms(1) Some] kept_mask_distinct clean_def
        get_attr_def)
qed

theorem load_data_refines_clean_witness:
  "wf_frame raw_page \<and> distinct (index raw_page) \<and>
   load_data (\<lambda>u. Inr [raw_page]) 2023 = clean raw_page \<and> clean raw_page = Inr clean_page"
  using load_data_refines_clean [of "\<lambda>u. Inr [raw_page]" 2023 raw_page "[]"]
  by (simp add: wf_raw_page distinct_index_raw_page load_data_example)

section \<open>Memoisation\<close>

text \<open>
  \<^verbatim>\<open>@st.cache_data\<close> keeps the value \<^verbatim>\<open>load_data\<close> returned for each year and
  returns it again without running the function; a call that raises stores nothing. The
  cache is a map from years to tables, passed in and returned.
\<close>

type_synonym cache = "int \<rightharpoonup> frame"

definition load_data_cached :: "read_html \<Rightarrow> cache \<Rightarrow> int \<Rightarrow> frame result \<times> cache" where
  "load_data_cached read_html cache year =
     (case cache year of
        Some df \<Rightarrow> (Inr df, cache)
      | None \<Rightarrow>
         (case load_data read_html year of
            Inl e \<Rightarrow> (Inl e, cache)
          | Inr df \<Rightarrow> (Inr df, cache(year \<mapsto> df))))"

lemma load_data_cached_hit:
  "cache year = Some df \<Longrightarrow> load_data_cached read_html cache year = (Inr df, cache)"
  by (simp add: load_data_cached_def)

lemma load_data_cached_miss:
  "cache year = None \<Longrightarrow>
   load_data_cached read_html cache year =
     (load_data read_html year,
      case load_data read_html year of Inl e \<Rightarrow> cache | Inr df \<Rightarrow> cache(year \<mapsto> df))"
  by (simp add: load_data_cached_def split: sum.splits)

lemma load_data_cached_mono:
  "load_data_cached read_html cache year = (r, cache') \<Longrightarrow> cache \<subseteq>\<^sub>m cache'"
  by (auto simp: load_data_cached_def map_le_def split: option.splits sum.splits)

lemma load_data_cached_result:
  "load_data_cached read_html cache year = (Inr df, cache') \<Longrightarrow> cache' year = Some df"
  by (auto simp: load_data_cached_def split: option.splits sum.splits)

end
