(* ===== verification/Normalize.thy ===== *)
theory Normalize
  imports Loader
begin

text \<open>
  Lines 44-45 of \<^verbatim>\<open>src/eda.py\<close>: every column name is stripped, lowercased and has its
  spaces replaced by underscores (\<open>normalize_columns\<close>), then the column \<^verbatim>\<open>team\<close> is
  converted to text (\<open>team_to_str\<close>), which raises \<^verbatim>\<open>KeyError\<close> when no column is
  called \<^verbatim>\<open>team\<close> after the renaming. \<open>is_normal\<close> characterises the names the
  renaming produces: they are exactly its fixed points. The conversion of a float cell to
  text is a parameter \<open>fr\<close> (Python's \<^verbatim>\<open>repr\<close> of a float), of which nothing is assumed.
\<close>

section \<open>Column names\<close>

definition normalize_name :: "string \<Rightarrow> string" where
  "normalize_name s = replace_char CHR '' '' CHR ''_'' (lower (strip s))"

definition is_normal :: "string \<Rightarrow> bool" where
  "is_normal s \<longleftrightarrow> stripped s \<and> list_all (\<lambda>c. \<not> is_upper c \<and> c \<noteq> CHR '' '') s"

definition normalize_columns :: "frame \<Rightarrow> frame" where
  "normalize_columns df = rename_columns normalize_name df"

lemma underscore_not_space [simp]: "\<not> is_space CHR ''_''"
  by (simp add: is_space_def)

lemma space_not_upper [simp]: "\<not> is_upper CHR '' ''" "\<not> is_upper CHR ''_''"
  by (simp_all add: is_upper_def less_eq_char_def)

lemma stripped_replace_space:
  "stripped s \<Longrightarrow> stripped (replace_char CHR '' '' CHR ''_'' s)"
  by (cases "s = []") (auto simp: stripped_def replace_char_def hd_map last_map)

lemma is_normal_normalize_name [simp]: "is_normal (normalize_name s)"
proof -
  have "stripped (normalize_name s)"
    by (simp add: normalize_name_def stripped_replace_space)
  moreover have "\<not> is_upper c \<and> c \<noteq> CHR '' ''" if "c \<in> set (normalize_name s)" for c
    using that by (auto simp: normalize_name_def replace_char_def lower_def)
  ultimately show ?thesis
    by (simp add: is_normal_def list_all_iff)
qed

lemma normalize_name_id:
  assumes "is_normal s"
  shows "normalize_name s = s"
proof -
  from assms have "strip s = s" and "lower s = s" and "CHR '' '' \<notin> set s"
    by (auto simp: is_normal_def list_all_iff strip_id lower_id)
  then show ?thesis
    by (simp add: normalize_name_def replace_char_id)
qed

lemma normalize_name_fixed_iff: "normalize_name s = s \<longleftrightarrow> is_normal s"
  by (metis is_normal_normalize_name normalize_name_id)

lemma normalize_name_idem [simp]: "normalize_name (normalize_name s) = normalize_name s"
  by (simp add: normalize_name_id)

lemma length_normalize_name_le: "length (normalize_name s) \<le> length s"
  by (simp add: normalize_name_def length_strip_le)

lemma normalize_name_examples:
  "normalize_name ''Age'' = ''age''"
  "normalize_name ''Team'' = ''team''"
  "normalize_name '' FG% '' = ''fg%''"
  "normalize_name ''Player Additional'' = ''player_additional''"
  by (simp_all add: normalize_name_def text_eval)

lemma normalize_columns_simps [simp]:
  "index (normalize_columns df) = index df"
  "column_names (normalize_columns df) = map normalize_name (column_names df)"
  "nrows (normalize_columns df) = nrows df"
  "ncols (normalize_columns df) = ncols df"
  "rows (normalize_columns df) = rows df"
  "no_nan (normalize_columns df) = no_nan df"
  by (simp_all add: normalize_columns_def)

lemma wf_normalize_columns [wf_intros]: "wf_frame df \<Longrightarrow> wf_frame (normalize_columns df)"
  by (simp add: normalize_columns_def wf_rename_columns)

lemma has_column_normalize_columns:
  "has_column c (normalize_columns df) \<longleftrightarrow> (\<exists>n \<in> set (column_names df). normalize_name n = c)"
  by (auto simp: has_column_def)

lemma find_column_normalize_columns:
  "find_column c (normalize_columns df) =
   map_option (\<lambda>k. k\<lparr>cname := normalize_name (cname k)\<rparr>)
     (find (\<lambda>k. normalize_name (cname k) = c) (columns df))"
  by (simp add: find_column_def normalize_columns_def find_map_list comp_def)

text \<open>
  C12. After line 44 every column name is normal (stripped, without ASCII capitals and
  without spaces); renaming again changes nothing; and the cells, the row labels and the
  shape of the table are untouched.
\<close>

theorem normalize_columns_normal:
  "list_all is_normal (column_names (normalize_columns df)) \<and>
   normalize_columns (normalize_columns df) = normalize_columns df \<and>
   rows (normalize_columns df) = rows df \<and> index (normalize_columns df) = index df \<and>
   shape (normalize_columns df) = shape df"
proof -
  have "map ((\<lambda>k. k\<lparr>cname := normalize_name (cname k)\<rparr>) \<circ> (\<lambda>k. k\<lparr>cname := normalize_name (cname k)\<rparr>))
          (columns df) = map (\<lambda>k. k\<lparr>cname := normalize_name (cname k)\<rparr>) (columns df)"
    by (rule map_cong) simp_all
  then have "normalize_columns (normalize_columns df) = normalize_columns df"
    by (simp add: normalize_columns_def rename_columns_def)
  then show ?thesis
    by (simp add: list_all_iff shape_def)
qed

section \<open>The team column as text\<close>

definition team_to_str :: "(rat \<Rightarrow> string) \<Rightarrow> frame \<Rightarrow> frame result" where
  "team_to_str fr df = update_column ''team'' (astype_str fr) df"

definition prepare :: "(rat \<Rightarrow> string) \<Rightarrow> frame \<Rightarrow> frame result" where
  "prepare fr df = team_to_str fr (normalize_columns df)"

definition all_text :: "column \<Rightarrow> bool" where
  "all_text k \<longleftrightarrow> list_all (\<lambda>c. case c of VStr s \<Rightarrow> True | _ \<Rightarrow> False) (cells k)"

lemma all_text_iff: "all_text k \<longleftrightarrow> (\<forall>c \<in> set (cells k). \<exists>s. c = VStr s)"
proof -
  have "(case c of VStr s \<Rightarrow> True | _ \<Rightarrow> False) \<longleftrightarrow> (\<exists>s. c = VStr s)" for c
    by (cases c) simp_all
  then show ?thesis
    by (simp add: all_text_def list_all_iff)
qed

lemma all_text_astype_str [simp]: "all_text (astype_str fr k)"
  by (auto simp: all_text_iff)

lemma team_to_str_absent:
  "\<not> has_column ''team'' df \<Longrightarrow> team_to_str fr df = Inl (KeyError ''team'')"
  by (simp add: team_to_str_def update_column_absent)

lemma team_to_str_present:
  "has_column ''team'' df \<Longrightarrow>
   team_to_str fr df =
     Inr (df\<lparr>columns := map (\<lambda>k. if cname k = ''team'' then astype_str fr k else k) (columns df)\<rparr>)"
proof -
  have "(if cname k = ''team'' then (astype_str fr k)\<lparr>cname := ''team''\<rparr> else k)
      = (if cname k = ''team'' then astype_str fr k else k)" for k
    by (simp add: astype_str_def)
  then show "has_column ''team'' df \<Longrightarrow> ?thesis"
    by (simp add: team_to_str_def update_column_def)
qed

lemma team_to_str_Inr:
  assumes "team_to_str fr df = Inr df'"
  shows "index df' = index df"
    and "columns df' = map (\<lambda>k. if cname k = ''team'' then astype_str fr k else k) (columns df)"
    and "has_column ''team'' df"
proof -
  from assms have h: "has_column ''team'' df"
    by (cases "has_column ''team'' df") (simp_all add: team_to_str_absent)
  with assms team_to_str_present [OF h, of fr]
  show "index df' = index df"
    and "columns df' = map (\<lambda>k. if cname k = ''team'' then astype_str fr k else k) (columns df)"
    and "has_column ''team'' df"
    by auto
qed

lemma column_names_team_to_str:
  "team_to_str fr df = Inr df' \<Longrightarrow> column_names df' = column_names df"
  by (auto simp: column_names_def dest: team_to_str_Inr(2))

lemma nrows_team_to_str [shape_simps]: "team_to_str fr df = Inr df' \<Longrightarrow> nrows df' = nrows df"
  by (simp add: nrows_def team_to_str_Inr(1))

lemma ncols_team_to_str [shape_simps]: "team_to_str fr df = Inr df' \<Longrightarrow> ncols df' = ncols df"
  by (simp add: ncols_def team_to_str_Inr(2))

lemma wf_team_to_str:
  assumes "wf_frame df" and "team_to_str fr df = Inr df'"
  shows "wf_frame df'"
  using assms(1) team_to_str_Inr(1,2) [OF assms(2)]
  by (auto simp: wf_frame_def list_all_iff nrows_def wf_column_def)

lemma find_column_team_to_str:
  assumes "team_to_str fr df = Inr df'"
  shows "find_column c df' =
         map_option (\<lambda>k. if c = ''team'' then astype_str fr k else k) (find_column c df)"
proof -
  have "find (\<lambda>k. cname k = c) (map (\<lambda>k. if cname k = ''team'' then astype_str fr k else k) ks)
      = map_option (\<lambda>k. if c = ''team'' then astype_str fr k else k) (find (\<lambda>k. cname k = c) ks)"
    for ks :: "column list"
    by (induction ks) auto
  with team_to_str_Inr(2) [OF assms] show ?thesis
    by (simp add: find_column_def)
qed

lemma no_nan_team_to_str:
  assumes "no_nan df" and "team_to_str fr df = Inr df'"
  shows "no_nan df'"
  using assms(1) team_to_str_Inr(2) [OF assms(2)]
  by (auto simp: no_nan_def list_all_iff)

text \<open>
  C7. Lines 44-45 succeed exactly when some column name normalises to \<^verbatim>\<open>team\<close>, and
  raise \<^verbatim>\<open>KeyError: 'team'\<close> otherwise; on success the table keeps its labels and
  column names, and the column \<^verbatim>\<open>team\<close> holds text only.
\<close>

theorem prepare_outcome:
  "(if \<exists>n \<in> set (column_names df). normalize_name n = ''team''
    then \<exists>df' team. prepare fr df = Inr df' \<and> index df' = index df \<and>
           column_names df' = map normalize_name (column_names df) \<and>
           find_column ''team'' df' = Some team \<and> all_text team \<and> ctype team = Object
    else prepare fr df = Inl (KeyError ''team''))"
proof (cases "has_column ''team'' (normalize_columns df)")
  case False
  then show ?thesis
    by (simp add: prepare_def team_to_str_absent has_column_normalize_columns)
next
  case True
  then obtain df' where df': "team_to_str fr (normalize_columns df) = Inr df'"
    by (simp add: team_to_str_present)
  from True obtain k where k: "find_column ''team'' (normalize_columns df) = Some k"
    by (auto dest: find_column_Some_ex)
  with df' have "find_column ''team'' df' = Some (astype_str fr k)"
    by (simp add: find_column_team_to_str)
  with df' True team_to_str_Inr(1) [OF df'] column_names_team_to_str [OF df'] show ?thesis
    by (simp add: prepare_def has_column_normalize_columns)
qed

theorem prepare_outcome_witness:
  "(\<exists>n \<in> set (column_names clean_page). normalize_name n = ''team'') \<and>
   (\<exists>df'. prepare (\<lambda>q. ''0.5'') clean_page = Inr df' \<and>
      column_names df' = [''player'', ''age'', ''team'', ''pos'', ''pts'']) \<and>
   prepare (\<lambda>q. ''0.5'') pts_only = Inl (KeyError ''team'')"
proof -
  have names: "map normalize_name (column_names clean_page)
      = [''player'', ''age'', ''team'', ''pos'', ''pts'']"
    by (simp add: example_defs column_names_def normalize_name_def text_eval)
  have ex: "\<exists>n \<in> set (column_names clean_page). normalize_name n = ''team''"
    by (simp add: example_defs column_names_def normalize_name_def text_eval)
  have nex: "\<not> (\<exists>n \<in> set (column_names pts_only). normalize_name n = ''team'')"
    by (simp add: example_defs column_names_def normalize_name_def text_eval)
  from prepare_outcome [of clean_page "\<lambda>q. ''0.5''"] ex obtain df' where
    "prepare (\<lambda>q. ''0.5'') clean_page = Inr df'"
    "column_names df' = map normalize_name (column_names clean_page)"
    by (simp only: if_True) blast
  moreover from prepare_outcome [of pts_only "\<lambda>q. ''0.5''"] nex
  have "prepare (\<lambda>q. ''0.5'') pts_only = Inl (KeyError ''team'')"
    by (simp only: if_False)
  ultimately show ?thesis
    using ex names by (intro conjI exI [of _ df']) simp_all
qed

end
