(* ===== verification/Row_Filter.thy ===== *)
theory Row_Filter
  imports Normalize
begin

text \<open>
  Lines 47-52 of \<^verbatim>\<open>src/eda.py\<close>: the team options (the sorted distinct values of the
  team column), the five position options, the two multi-select widgets, and the filtered
  table \<^verbatim>\<open>df_selected_team\<close>. A widget is a function of its options, its default and
  what the user picked (\<open>None\<close> while the widget is untouched); it returns options only.
  The specification of the filter is on rows (\<open>row_matches\<close>): a row is kept when its
  team cell is a selected team and its position cell a selected position. The theorems
  show that the mask-based code computes this filter of the rows, keeps their order,
  raises \<^verbatim>\<open>KeyError\<close> exactly when a column is missing, and is the identity exactly
  under the condition stated in \<open>keeps_all\<close>.
\<close>

section \<open>The options\<close>

fun cell_text :: "cell \<Rightarrow> string option" where
  "cell_text (VStr s) = Some s"
| "cell_text c = None"

text \<open>
  \<^verbatim>\<open>sorted(values)\<close> on cells that are all text is the sort by the lexicographic order
  of the characters; a list that mixes text with other cells raises \<^verbatim>\<open>TypeError\<close>.
  At line 47 the cells are text (\<open>prepare_outcome\<close>), so lists of numbers only, which
  Python would sort numerically, do not reach the call and are not given a meaning of their
  own here.
\<close>

definition sorted_text :: "cell list \<Rightarrow> string list result" where
  "sorted_text cs = (case those (map cell_text cs) of
      None \<Rightarrow> Inl (TypeError ''<'') | Some ss \<Rightarrow> Inr (sort ss))"

definition sorted_unique_team :: "frame \<Rightarrow> string list result" where
  "sorted_unique_team playerstats =
     bind_result (get_column ''team'' playerstats) (\<lambda>team. sorted_text (unique (cells team)))"

definition unique_pos :: "string list" where
  "unique_pos = [''C'', ''PF'', ''SF'', ''PG'', ''SG'']"

definition multiselect :: "string list \<Rightarrow> string list \<Rightarrow> string list option \<Rightarrow> string list" where
  "multiselect options dflt picked =
     (case picked of None \<Rightarrow> dflt | Some vs \<Rightarrow> filter (\<lambda>v. v \<in> set vs) options)"

lemma those_map_cell_text:
  "those (map cell_text cs) = Some ss \<longleftrightarrow> cs = map VStr ss"
proof (induction cs arbitrary: ss)
  case Nil
  show ?case by auto
next
  case (Cons c cs)
  show ?case
    by (cases c; cases ss) (auto simp: Cons split: option.splits)
qed

lemma those_map_cell_text_None:
  "those (map cell_text cs) = None \<longleftrightarrow> (\<exists>c \<in> set cs. \<forall>s. c \<noteq> VStr s)"
proof (induction cs)
  case Nil
  show ?case by simp
next
  case (Cons c cs)
  then show ?case
    by (cases c) (auto split: option.splits)
qed

lemma sorted_text_VStr [simp]: "sorted_text (map VStr ss) = Inr (sort ss)"
  using those_map_cell_text [of "map VStr ss" ss] by (simp add: sorted_text_def)

lemma all_text_cells: "all_text k \<Longrightarrow> \<exists>ss. cells k = map VStr ss"
proof -
  assume "all_text k"
  then have "those (map cell_text (cells k)) \<noteq> None"
    by (auto simp: those_map_cell_text_None all_text_iff)
  then show ?thesis
    by (auto simp: those_map_cell_text)
qed

lemma unique_map_inj: "inj f \<Longrightarrow> unique (map f xs) = map f (unique xs)"
  by (induction xs) (auto simp: filter_map comp_def inj_eq)

lemma multiselect_subset: "set (multiselect options options picked) \<subseteq> set options"
  by (auto simp: multiselect_def split: option.splits)

lemma multiselect_default [simp]: "multiselect options dflt None = dflt"
  by (simp add: multiselect_def)

lemma set_multiselect_Some [simp]:
  "set (multiselect options dflt (Some vs)) = set options \<inter> set vs"
  by (auto simp: multiselect_def)

text \<open>
  C13. When the team column is text, the team options are its distinct values in ascending
  order: sorted, without repetition, and holding exactly the texts that occur in the
  column.
\<close>

theorem sorted_unique_team_correct:
  assumes "find_column ''team'' df = Some team" and "all_text team"
  shows "\<exists>ts. sorted_unique_team df = Inr ts \<and> sorted ts \<and> distinct ts \<and>
              set ts = {s. VStr s \<in> set (cells team)}"
proof -
  from assms(2) obtain ss where ss: "cells team = map VStr ss"
    by (auto dest: all_text_cells)
  have "inj VStr"
    by (simp add: inj_def)
  then have "unique (map VStr ss) = map VStr (unique ss)"
    by (rule unique_map_inj)
  with assms(1) ss have "sorted_unique_team df = Inr (sort (unique ss))"
    by (simp add: sorted_unique_team_def get_column_def)
  moreover have "set (sort (unique ss)) = {s. VStr s \<in> set (cells team)}"
    by (auto simp: ss)
  ultimately show ?thesis
    by simp
qed

lemma sorted_unique_team_example:
  "sorted_unique_team prepared_page = Inr [''0'', ''BOS'', ''LAL'']"
  by code_simp

theorem sorted_unique_team_correct_witness:
  "find_column ''team'' prepared_page = Some (obj ''team'' [VStr ''BOS'', VStr ''LAL'', VStr ''0''])
   \<and> all_text (obj ''team'' [VStr ''BOS'', VStr ''LAL'', VStr ''0''])
   \<and> (\<exists>ts. sorted_unique_team prepared_page = Inr ts \<and> sorted ts \<and> distinct ts \<and>
         set ts = {''BOS'', ''LAL'', ''0''})"
proof -
  let ?team = "obj ''team'' [VStr ''BOS'', VStr ''LAL'', VStr ''0'']"
  have 1: "find_column ''team'' prepared_page = Some ?team"
    by (simp add: example_defs eval_defs)
  have 2: "all_text ?team"
    by (simp add: all_text_def obj_def)
  from sorted_unique_team_correct [OF 1 2] 1 2 show ?thesis
    by (auto simp: obj_def)
qed

section \<open>The filtered table\<close>

definition df_selected_team :: "string list \<Rightarrow> string list \<Rightarrow> frame \<Rightarrow> frame result" where
  "df_selected_team selected_team selected_pos playerstats =
     bind_result (get_column ''team'' playerstats) (\<lambda>team.
     bind_result (get_column ''pos'' playerstats) (\<lambda>pos.
     Inr (select_rows (mask_and (isin team selected_team) (isin pos selected_pos)) playerstats)))"

definition row_matches :: "frame \<Rightarrow> string list \<Rightarrow> string list \<Rightarrow> cell list \<Rightarrow> bool" where
  "row_matches df teams positions r \<longleftrightarrow>
     cell_in teams (row_cell ''team'' df r) \<and> cell_in positions (row_cell ''pos'' df r)"

definition keeps_all :: "frame \<Rightarrow> string list \<Rightarrow> string list \<Rightarrow> bool" where
  "keeps_all df teams positions \<longleftrightarrow> list_all (row_matches df teams positions) (rows df)"

lemma df_selected_team_found:
  "find_column ''team'' df = Some team \<Longrightarrow> find_column ''pos'' df = Some pos \<Longrightarrow>
   df_selected_team ts ps df = Inr (select_rows (mask_and (isin team ts) (isin pos ps)) df)"
  by (simp add: df_selected_team_def get_column_def)

lemma df_selected_team_Inr:
  assumes "df_selected_team ts ps df = Inr out"
  obtains team pos where "find_column ''team'' df = Some team" "find_column ''pos'' df = Some pos"
    "out = select_rows (mask_and (isin team ts) (isin pos ps)) df"
  using assms by (auto simp: df_selected_team_def bind_result_eq_Inr get_column_Inr_iff)

lemma filter_mask_rows:
  assumes "wf_frame df" and "find_column ''team'' df = Some team"
    and "find_column ''pos'' df = Some pos"
  shows "mask_and (isin team ts) (isin pos ps) = map (row_matches df ts ps) (rows df)"
proof -
  from assms have "cells team = map (row_cell ''team'' df) (rows df)"
    and "cells pos = map (row_cell ''pos'' df) (rows df)"
    by (simp_all add: row_cell_column)
  then show ?thesis
    by (simp add: mask_and_def isin_def map2_map_same row_matches_def [abs_def])
qed

lemma length_filter_mask:
  assumes "wf_frame df" and "find_column ''team'' df = Some team"
    and "find_column ''pos'' df = Some pos"
  shows "length (mask_and (isin team ts) (isin pos ps)) = nrows df"
  using assms by (simp add: find_column_wf)

text \<open>
  C1. The filtered table holds exactly the rows of the table whose team cell is a selected
  team and whose position cell is a selected position, in their original order; it is well
  formed and has the columns of the table.
\<close>

theorem df_selected_team_rows:
  assumes "wf_frame df" and "df_selected_team ts ps df = Inr out"
  shows "rows out = filter (row_matches df ts ps) (rows df) \<and> wf_frame out \<and>
         column_names out = column_names df \<and> subseq (index out) (index df)"
proof -
  from assms(2) obtain team pos where
    cols: "find_column ''team'' df = Some team" "find_column ''pos'' df = Some pos"
    and out: "out = select_rows (mask_and (isin team ts) (isin pos ps)) df"
    by (rule df_selected_team_Inr)
  note len = length_filter_mask [OF assms(1) cols]
  from assms(1) len have "rows out = select_mask (mask_and (isin team ts) (isin pos ps)) (rows df)"
    unfolding out by (rule rows_select_rows)
  also have "\<dots> = filter (row_matches df ts ps) (rows df)"
    by (simp add: filter_mask_rows [OF assms(1) cols])
  finally show ?thesis
    using assms(1) len by (simp add: out wf_select_rows)
qed

theorem df_selected_team_rows_witness:
  "wf_frame spec_table \<and> df_selected_team [''BOS''] unique_pos spec_table = Inr bos_only \<and>
   rows bos_only = [[VStr ''A'', VStr ''BOS'', VStr ''PG'', VInt 30]] \<and> index bos_only = [0]"
proof -
  have out: "df_selected_team [''BOS''] unique_pos spec_table = Inr bos_only"
    by (simp add: df_selected_team_def unique_pos_def example_defs eval_defs)
  have "filter (row_matches spec_table [''BOS''] unique_pos) (rows spec_table)
      = [[VStr ''A'', VStr ''BOS'', VStr ''PG'', VInt 30]]"
    unfolding rows_spec_table
    by (simp add: row_matches_def unique_pos_def example_defs eval_defs)
  with df_selected_team_rows [OF wf_spec_table out] out show ?thesis
    by (simp add: wf_spec_table) (simp add: bos_only_def)
qed


text \<open>
  C9. The filter returns the table unchanged if and only if every row matches the
  selection; this is what "selecting everything" has to mean for the filter to be the
  identity.
\<close>

theorem df_selected_team_identity:
  assumes "wf_frame df" and "df_selected_team ts ps df = Inr out"
  shows "out = df \<longleftrightarrow> keeps_all df ts ps"
proof -
  from assms(2) obtain team pos where
    cols: "find_column ''team'' df = Some team" "find_column ''pos'' df = Some pos"
    and out: "out = select_rows (mask_and (isin team ts) (isin pos ps)) df"
    by (rule df_selected_team_Inr)
  let ?m = "mask_and (isin team ts) (isin pos ps)"
  note len = length_filter_mask [OF assms(1) cols, of ts ps]
  note rows = filter_mask_rows [OF assms(1) cols, of ts ps]
  show ?thesis
  proof
    assume "out = df"
    with df_selected_team_rows [OF assms] have "filter (row_matches df ts ps) (rows df) = rows df"
      by simp
    then show "keeps_all df ts ps"
      by (simp add: keeps_all_def list_all_iff filter_id_conv)
  next
    assume "keeps_all df ts ps"
    then have "\<forall>b \<in> set ?m. b"
      by (simp add: rows keeps_all_def list_all_iff)
    moreover have "length ?m = nrows df"
      by (rule len)
    ultimately have "?m = replicate (nrows df) True"
      by (metis replicate_eqI)
    with assms(1) show "out = df"
      unfolding out by (rule select_rows_all_True)
  qed
qed

theorem df_selected_team_identity_witness:
  "wf_frame spec_table \<and>
   df_selected_team [''BOS'', ''LAL''] unique_pos spec_table = Inr spec_table \<and>
   keeps_all spec_table [''BOS'', ''LAL''] unique_pos \<and>
   df_selected_team [''BOS''] unique_pos spec_table = Inr bos_only \<and>
   \<not> keeps_all spec_table [''BOS''] unique_pos"
proof -
  have 1: "df_selected_team [''BOS'', ''LAL''] unique_pos spec_table = Inr spec_table"
    by (simp add: df_selected_team_def unique_pos_def example_defs eval_defs)
  have 2: "df_selected_team [''BOS''] unique_pos spec_table = Inr bos_only"
    by (simp add: df_selected_team_def unique_pos_def example_defs eval_defs)
  have "bos_only \<noteq> spec_table"
    by (simp add: example_defs)
  with df_selected_team_identity [OF wf_spec_table 1] df_selected_team_identity [OF wf_spec_table 2]
    1 2 show ?thesis
    by (simp add: wf_spec_table)
qed

text \<open>
  C14. With no team selected (or no position selected) the filtered table is empty: it has
  no row, and still has every column.
\<close>

theorem df_selected_team_empty:
  assumes "wf_frame df" and "df_selected_team ts ps df = Inr out" and "ts = [] \<or> ps = []"
  shows "nrows out = 0 \<and> rows out = [] \<and> ncols out = ncols df"
proof -
  from assms(3) have "filter (row_matches df ts ps) (rows df) = []"
    by (auto simp: filter_empty_conv row_matches_def)
  with df_selected_team_rows [OF assms(1,2)] have r: "rows out = []" and wf: "wf_frame out"
    and "column_names out = column_names df"
    by simp_all
  then have "ncols out = ncols df"
    by (metis column_names_def length_map ncols_def)
  moreover from wf r have "nrows out = 0"
    using length_rows [of out] by simp
  ultimately show ?thesis
    using r by simp
qed

theorem df_selected_team_empty_witness:
  "wf_frame spec_table \<and>
   df_selected_team [] unique_pos spec_table =
     Inr (select_rows [False, False] spec_table) \<and>
   nrows (select_rows [False, False] spec_table) = 0 \<and>
   ncols (select_rows [False, False] spec_table) = 4"
proof -
  have out: "df_selected_team [] unique_pos spec_table = Inr (select_rows [False, False] spec_table)"
    by (simp add: df_selected_team_def unique_pos_def example_defs get_column_def find_column_def
        isin_def mask_and_def)
  from df_selected_team_empty [OF wf_spec_table out] out show ?thesis
    by (simp add: wf_spec_table) (simp add: ncols_def spec_table_def)
qed

section \<open>The default selection\<close>

text \<open>
  C6. While both widgets are untouched every team is selected, so the filter keeps exactly
  the rows whose position is one of \<^verbatim>\<open>C\<close>, \<^verbatim>\<open>PF\<close>, \<^verbatim>\<open>SF\<close>, \<^verbatim>\<open>PG\<close>,
  \<^verbatim>\<open>SG\<close>: a row with any other position text is not shown, although nothing was
  deselected.
\<close>

theorem default_filter_rows:
  assumes wf: "wf_frame df"
    and team: "find_column ''team'' df = Some team" "all_text team"
    and opts: "sorted_unique_team df = Inr ts"
    and out: "df_selected_team (multiselect ts ts None) (multiselect unique_pos unique_pos None) df
              = Inr out"
  shows "rows out = filter (\<lambda>r. cell_in unique_pos (row_cell ''pos'' df r)) (rows df)"
proof -
  from sorted_unique_team_correct [OF team] opts
  have ts: "set ts = {s. VStr s \<in> set (cells team)}"
    by simp
  have "cell_in ts (row_cell ''team'' df r)" if "r \<in> set (rows df)" for r
  proof -
    from that have "row_cell ''team'' df r \<in> set (map (row_cell ''team'' df) (rows df))"
      by simp
    then have mem: "row_cell ''team'' df r \<in> set (cells team)"
      by (simp only: row_cell_column [OF wf team(1)])
    with team(2) obtain s where "row_cell ''team'' df r = VStr s"
      by (auto simp: all_text_iff)
    with mem ts show ?thesis
      by simp
  qed
  then have "filter (row_matches df ts unique_pos) (rows df)
      = filter (\<lambda>r. cell_in unique_pos (row_cell ''pos'' df r)) (rows df)"
    by (intro filter_cong) (simp_all add: row_matches_def)
  with df_selected_team_rows [OF wf] out show ?thesis
    by simp
qed

theorem default_filter_rows_witness:
  "wf_frame prepared_page \<and> sorted_unique_team prepared_page = Inr [''0'', ''BOS'', ''LAL''] \<and>
   (\<exists>out. df_selected_team (multiselect [''0'', ''BOS'', ''LAL''] [''0'', ''BOS'', ''LAL''] None)
            (multiselect unique_pos unique_pos None) prepared_page = Inr out \<and>
          rows out = [[VStr ''A'', VStr ''25'', VStr ''BOS'', VStr ''PG'', VStr ''30.0''],
                      [VStr ''B'', VStr ''30'', VStr ''LAL'', VStr ''SF'', VStr ''10.0'']] \<and>
          length (rows out) < length (rows prepared_page))"
proof -
  let ?team = "obj ''team'' [VStr ''BOS'', VStr ''LAL'', VStr ''0'']"
  let ?ts = "[''0'', ''BOS'', ''LAL'']"
  have team: "find_column ''team'' prepared_page = Some ?team" "all_text ?team"
    by (simp_all add: example_defs eval_defs all_text_def)
  have opts: "sorted_unique_team prepared_page = Inr ?ts"
    by (rule sorted_unique_team_example)
  obtain out where out: "df_selected_team (multiselect ?ts ?ts None)
      (multiselect unique_pos unique_pos None) prepared_page = Inr out"
    by (simp add: df_selected_team_def example_defs get_column_def find_column_def)
  have "filter (\<lambda>r. cell_in unique_pos (row_cell ''pos'' prepared_page r)) (rows prepared_page)
      = [[VStr ''A'', VStr ''25'', VStr ''BOS'', VStr ''PG'', VStr ''30.0''],
         [VStr ''B'', VStr ''30'', VStr ''LAL'', VStr ''SF'', VStr ''10.0'']]"
    unfolding rows_prepared_page
    by (simp add: unique_pos_def example_defs eval_defs)
  with default_filter_rows [OF wf_prepared_page team opts out] out opts show ?thesis
    by (simp add: wf_prepared_page rows_prepared_page)
qed

end
