(* ===== verification/Page.thy ===== *)
theory Page
  imports Row_Filter
begin

text \<open>
  What a run of the script puts on the page, as data. Each call of the page library that
  the script makes becomes one \<open>element\<close>, in the order of the calls; a chart is the
  \<open>figure\<close> the script builds before it hands it to \<^verbatim>\<open>st.pyplot\<close>: the size of the
  canvas, the plotting call with its arguments, the axis labels, the title and the
  rotation of the tick labels. How the libraries turn a figure into pixels is outside the
  model. A run that raises stops there: \<open>emit\<close> and \<open>then_page\<close> keep the elements
  written before the exception, as the page does.
\<close>

section \<open>Figures and page elements\<close>

datatype plot =
    Heatmap (hm_labels: "string list") (hm_values: "cell list list") (hm_mask: "bool list list")
      (hm_vmin: "int option") (hm_vmax: int) (hm_square: bool) (hm_annot: bool) (hm_cmap: string)
  | Boxplot (plot_x: string) (plot_y: string) (plot_data: frame)
  | Barplot (plot_x: string) (plot_y: string) (plot_data: frame)
  | Scatterplot (plot_x: string) (plot_y: string) (plot_data: frame)
  | Lineplot (plot_x: string) (plot_y: string) (plot_data: frame)

record figure =
  figsize :: "nat \<times> nat"
  plot :: plot
  xlabel :: "string option"
  ylabel :: "string option"
  title :: string
  xticks_rotation :: "nat option"

datatype element =
    Header string
  | SidebarHeader string
  | Write string
  | Dataframe frame
  | Markdown string bool
  | Pyplot figure

text \<open>
  A page in the making: the elements written so far and the exception that stopped the
  script, if one did.
\<close>

type_synonym page = "element list \<times> error option"

definition emit :: "element list \<Rightarrow> page" where
  "emit es = (es, None)"

definition raise_page :: "error \<Rightarrow> page" where
  "raise_page e = ([], Some e)"

definition then_page :: "page \<Rightarrow> page \<Rightarrow> page" where
  "then_page p q = (case snd p of None \<Rightarrow> (fst p @ fst q, snd q) | Some e \<Rightarrow> p)"

definition of_result :: "'a result \<Rightarrow> ('a \<Rightarrow> page) \<Rightarrow> page" where
  "of_result r f = (case r of Inl e \<Rightarrow> raise_page e | Inr x \<Rightarrow> f x)"

definition completed :: "page \<Rightarrow> bool" where
  "completed p \<longleftrightarrow> snd p = None"

fun is_pyplot :: "element \<Rightarrow> bool" where
  "is_pyplot (Pyplot f) = True"
| "is_pyplot e = False"

fun is_text :: "element \<Rightarrow> bool" where
  "is_text (Write s) = True"
| "is_text e = False"

definition charts_of :: "page \<Rightarrow> figure list" where
  "charts_of p = concat (map (\<lambda>e. case e of Pyplot f \<Rightarrow> [f] | _ \<Rightarrow> []) (fst p))"

definition texts_of :: "page \<Rightarrow> string list" where
  "texts_of p = concat (map (\<lambda>e. case e of Write s \<Rightarrow> [s] | _ \<Rightarrow> []) (fst p))"

section \<open>Sequencing\<close>

lemma then_page_emit [simp]:
  "then_page (emit es) q = (es @ fst q, snd q)"
  by (simp add: then_page_def emit_def)

lemma then_page_raise [simp]:
  "then_page (es, Some e) q = (es, Some e)"
  by (simp add: then_page_def)

lemma then_page_assoc:
  "then_page (then_page p q) r = then_page p (then_page q r)"
  by (cases p; cases q; cases r) (auto simp: then_page_def split: option.splits)

lemma then_page_emit_Nil [simp]: "then_page p (emit []) = p"
  by (cases p) (simp add: then_page_def emit_def split: option.splits)

lemma emit_Nil_then_page [simp]: "then_page (emit []) p = p"
  by simp

lemma completed_emit [simp]: "completed (emit es)"
  by (simp add: completed_def emit_def)

lemma completed_raise_page [simp]: "\<not> completed (raise_page e)"
  by (simp add: completed_def raise_page_def)

lemma completed_then_page [simp]:
  "completed (then_page p q) \<longleftrightarrow> completed p \<and> completed q"
  by (cases p) (auto simp: completed_def then_page_def split: option.splits)

lemma fst_emit [simp]: "fst (emit es) = es"
  by (simp add: emit_def)

lemma snd_emit [simp]: "snd (emit es) = None"
  by (simp add: emit_def)

lemma fst_then_page_completed:
  "completed p \<Longrightarrow> fst (then_page p q) = fst p @ fst q"
  by (simp add: completed_def then_page_def)

lemma prefix_then_page: "prefix (fst p) (fst (then_page p q))"
  by (cases p) (simp add: then_page_def split: option.splits)

lemma of_result_simps [simp]:
  "of_result (Inl e) f = raise_page e"
  "of_result (Inr x) f = f x"
  by (simp_all add: of_result_def)

lemma completed_of_result:
  "completed (of_result r f) \<longleftrightarrow> (\<exists>x. r = Inr x \<and> completed (f x))"
  by (cases r) simp_all

lemma charts_of_emit [simp]:
  "charts_of (emit []) = []"
  "charts_of (emit (Pyplot f # es)) = f # charts_of (emit es)"
  "charts_of (emit (Header s # es)) = charts_of (emit es)"
  "charts_of (emit (SidebarHeader s # es)) = charts_of (emit es)"
  "charts_of (emit (Write s # es)) = charts_of (emit es)"
  "charts_of (emit (Dataframe df # es)) = charts_of (emit es)"
  "charts_of (emit (Markdown s b # es)) = charts_of (emit es)"
  by (simp_all add: charts_of_def emit_def)

lemma texts_of_emit [simp]:
  "texts_of (emit []) = []"
  "texts_of (emit (Write s # es)) = s # texts_of (emit es)"
  "texts_of (emit (Header s # es)) = texts_of (emit es)"
  "texts_of (emit (SidebarHeader s # es)) = texts_of (emit es)"
  "texts_of (emit (Pyplot f # es)) = texts_of (emit es)"
  "texts_of (emit (Dataframe df # es)) = texts_of (emit es)"
  "texts_of (emit (Markdown s b # es)) = texts_of (emit es)"
  by (simp_all add: texts_of_def emit_def)

lemma charts_of_then_page:
  "completed p \<Longrightarrow> charts_of (then_page p q) = charts_of p @ charts_of q"
  by (simp add: charts_of_def fst_then_page_completed)

lemma texts_of_then_page:
  "completed p \<Longrightarrow> texts_of (then_page p q) = texts_of p @ texts_of q"
  by (simp add: texts_of_def fst_then_page_completed)

end
