(* ===== verification/Presentation.thy ===== *)
theory Presentation
  imports Page
begin

text \<open>
  Lines 54-64 of \<^verbatim>\<open>src/eda.py\<close>: the header, the line with the table's dimensions, the
  table itself and the download link. \<open>to_csv\<close> is \<^verbatim>\<open>df.to_csv(index=False)\<close>: the
  column names, then one record per row, every record ended by a line feed (the line
  terminator of a POSIX host), fields separated by commas and quoted only where needed,
  a missing value written as the empty field. \<open>b64encode\<close> is the standard base-64
  alphabet with padding on the UTF-8 bytes of the text. A strict CSV reader \<open>parse_csv\<close>
  and a decoder \<open>b64decode\<close> are the specifications the two writers are proved against:
  reading back what was written gives the records, and the bytes, that were written.
\<close>

section \<open>The dimensions line\<close>

definition dimension_text :: "frame \<Rightarrow> string" where
  "dimension_text df =
     ''Data Dimension: '' @ str_of_nat (fst (shape df)) @ '' rows and '' @
     str_of_nat (snd (shape df)) @ '' columns.''"

section \<open>CSV text\<close>

definition dq :: char where
  "dq = CHR 0x22"

definition nl :: char where
  "nl = CHR 0x0A"

definition cr :: char where
  "cr = CHR 0x0D"

definition comma :: char where
  "comma = CHR '',''"

definition special :: "char \<Rightarrow> bool" where
  "special c \<longleftrightarrow> c = comma \<or> c = dq \<or> c = nl \<or> c = cr"

definition escape_quotes :: "string \<Rightarrow> string" where
  "escape_quotes s = concat (map (\<lambda>c. if c = dq then [dq, dq] else [c]) s)"

definition csv_field :: "string \<Rightarrow> string" where
  "csv_field s = (if list_ex special s then dq # escape_quotes s @ [dq] else s)"

fun join :: "'a list \<Rightarrow> 'a list list \<Rightarrow> 'a list" where
  "join sep [] = []"
| "join sep [x] = x"
| "join sep (x # y # ys) = x @ sep @ join sep (y # ys)"

definition csv_record :: "string list \<Rightarrow> string" where
  "csv_record flds =
     (if flds = [[]] then [dq, dq] else join [comma] (map csv_field flds)) @ [nl]"

fun csv_cell :: "(rat \<Rightarrow> string) \<Rightarrow> cell \<Rightarrow> string" where
  "csv_cell fr (VStr s) = s"
| "csv_cell fr (VInt i) = str_of_int i"
| "csv_cell fr (VFloat q) = fr q"
| "csv_cell fr VNaN = []"

definition csv_records :: "(rat \<Rightarrow> string) \<Rightarrow> frame \<Rightarrow> string list list" where
  "csv_records fr df = column_names df # map (map (csv_cell fr)) (rows df)"

definition to_csv :: "(rat \<Rightarrow> string) \<Rightarrow> frame \<Rightarrow> string" where
  "to_csv fr df = concat (map csv_record (csv_records fr df))"

section \<open>Base 64\<close>

definition utf8_char :: "char \<Rightarrow> char list" where
  "utf8_char c =
     (let n = of_char c :: nat
      in if n < 128 then [c] else [char_of (192 + n div 64), char_of (128 + n mod 64)])"

definition encode :: "string \<Rightarrow> char list" where
  "encode s = concat (map utf8_char s)"

definition b64_alphabet :: string where
  "b64_alphabet = ''ABCDEFGHIJKLMNOPQRSTUVWXYZabcdefghijklmnopqrstuvwxyz0123456789+/''"

definition b64_char :: "nat \<Rightarrow> char" where
  "b64_char n = b64_alphabet ! n"

fun b64encode :: "char list \<Rightarrow> string" where
  "b64encode [] = []"
| "b64encode [a] =
     (let n = of_char a * 16
      in [b64_char (n div 64), b64_char (n mod 64), CHR ''='', CHR ''=''])"
| "b64encode [a, b] =
     (let n = of_char a * 1024 + of_char b * 4
      in [b64_char (n div 4096), b64_char (n div 64 mod 64), b64_char (n mod 64), CHR ''=''])"
| "b64encode (a # b # c # bs) =
     (let n = of_char a * 65536 + of_char b * 256 + of_char c
      in [b64_char (n div 262144), b64_char (n div 4096 mod 64),
          b64_char (n div 64 mod 64), b64_char (n mod 64)]) @ b64encode bs"

section \<open>The download link and the section of the page\<close>

definition filedownload :: "(rat \<Rightarrow> string) \<Rightarrow> frame \<Rightarrow> string" where
  "filedownload fr df =
     (let csv = to_csv fr df;
          b64 = b64encode (encode csv)
      in ''<a href='' @ [dq] @ ''data:file/csv;base64,'' @ b64 @ [dq] @ '' download='' @
         [dq] @ ''playerstats.csv'' @ [dq] @ ''>Download CSV File</a>'')"


section \<open>Reading the text back\<close>

text \<open>
  A strict reader for the dialect \<open>to_csv\<close> writes, as a machine over the characters:
  the state, the current field (reversed), the fields of the current record (reversed),
  the input. At the start of a field with no field read yet in the record, a line feed is
  an empty record. Input that ends inside quotes, or a closing quote followed by anything
  but a comma, a quote or a line feed, is refused.
\<close>

datatype pstate = Start | Unquoted | Quoted | QuoteInQuoted

fun scan :: "pstate \<Rightarrow> string \<Rightarrow> string list \<Rightarrow> string \<Rightarrow> string list list option" where
  "scan st cur fs [] =
     (if st = Quoted then None
      else if st = Start \<and> fs = [] then Some []
      else Some [rev (rev cur # fs)])"
| "scan Start cur fs (c # s) =
     (if c = dq then scan Quoted [] fs s
      else if c = comma then scan Start [] ([] # fs) s
      else if c = nl
        then map_option ((#) (if fs = [] then [] else rev ([] # fs))) (scan Start [] [] s)
      else scan Unquoted [c] fs s)"
| "scan Unquoted cur fs (c # s) =
     (if c = comma then scan Start [] (rev cur # fs) s
      else if c = nl then map_option ((#) (rev (rev cur # fs))) (scan Start [] [] s)
      else scan Unquoted (c # cur) fs s)"
| "scan Quoted cur fs (c # s) =
     (if c = dq then scan QuoteInQuoted cur fs s else scan Quoted (c # cur) fs s)"
| "scan QuoteInQuoted cur fs (c # s) =
     (if c = dq then scan Quoted (dq # cur) fs s
      else if c = comma then scan Start [] (rev cur # fs) s
      else if c = nl then map_option ((#) (rev (rev cur # fs))) (scan Start [] [] s)
      else None)"

definition parse_csv :: "string \<Rightarrow> string list list option" where
  "parse_csv s = scan Start [] [] s"

definition b64_val :: "char \<Rightarrow> nat option" where
  "b64_val c =
     (if c \<in> set b64_alphabet then Some (length (takeWhile (\<lambda>d. d \<noteq> c) b64_alphabet)) else None)"

fun b64decode :: "string \<Rightarrow> char list option" where
  "b64decode [] = Some []"
| "b64decode (a # b # c # d # s) =
     (case (b64_val a, b64_val b) of
        (Some x, Some y) \<Rightarrow>
          if c = CHR ''='' \<and> d = CHR ''='' \<and> s = [] then Some [char_of ((x * 64 + y) div 16)]
          else (case b64_val c of
                  None \<Rightarrow> None
                | Some z \<Rightarrow>
                    if d = CHR ''='' \<and> s = []
                    then Some [char_of ((x * 4096 + y * 64 + z) div 1024),
                               char_of ((x * 4096 + y * 64 + z) div 4)]
                    else (case b64_val d of
                            None \<Rightarrow> None
                          | Some w \<Rightarrow>
                              map_option
                                (\<lambda>bs. char_of ((x * 262144 + y * 4096 + z * 64 + w) div 65536) #
                                       char_of ((x * 262144 + y * 4096 + z * 64 + w) div 256) #
                                       char_of (x * 262144 + y * 4096 + z * 64 + w) # bs)
                                (b64decode s)))
      | _ \<Rightarrow> None)"
| "b64decode s = None"

section \<open>Writing and reading CSV\<close>

lemma special_simps [simp]: "special comma" "special dq" "special nl" "special cr"
  by (simp_all add: special_def)

lemma distinct_specials [simp]:
  "dq \<noteq> comma" "comma \<noteq> dq" "dq \<noteq> nl" "nl \<noteq> dq" "comma \<noteq> nl" "nl \<noteq> comma"
  by (simp_all add: dq_def comma_def nl_def)

lemma scan_unquoted_run:
  "\<not> list_ex special s \<Longrightarrow> scan Unquoted cur fs (s @ rest) = scan Unquoted (rev s @ cur) fs rest"
  by (induction s arbitrary: cur) (auto simp: special_def)

lemma scan_quoted_run:
  "scan Quoted cur fs (escape_quotes s @ dq # rest) = scan QuoteInQuoted (rev s @ cur) fs rest"
  by (induction s arbitrary: cur) (simp_all add: escape_quotes_def)

lemma scan_plain_field:
  assumes "\<not> list_ex special s" and "s \<noteq> []"
  shows "scan Start [] fs (s @ rest) = scan Unquoted (rev s) fs rest"
proof -
  from assms obtain c t where s: "s = c # t" and c: "\<not> special c" and t: "\<not> list_ex special t"
    by (cases s) auto
  from c have "c \<noteq> dq" "c \<noteq> comma" "c \<noteq> nl"
    by (auto simp: special_def)
  then show ?thesis
    using scan_unquoted_run [OF t, of "[c]" fs rest] by (simp add: s)
qed

lemma scan_field_comma:
  "scan Start [] fs (csv_field s @ comma # rest) = scan Start [] (s # fs) rest"
proof (cases "list_ex special s")
  case True
  then show ?thesis
    by (simp add: csv_field_def scan_quoted_run)
next
  case False
  then show ?thesis
    by (cases "s = []") (simp_all add: csv_field_def scan_plain_field)
qed

lemma scan_field_nl:
  "fs \<noteq> [] \<or> s \<noteq> [] \<Longrightarrow>
   scan Start [] fs (csv_field s @ nl # rest) = map_option ((#) (rev (s # fs))) (scan Start [] [] rest)"
proof (cases "list_ex special s")
  case True
  then show ?thesis
    by (simp add: csv_field_def scan_quoted_run)
next
  case False
  assume "fs \<noteq> [] \<or> s \<noteq> []"
  with False show ?thesis
    by (cases "s = []") (simp_all add: csv_field_def scan_plain_field)
qed

lemma scan_fields:
  "flds \<noteq> [] \<Longrightarrow> fs \<noteq> [] \<or> flds \<noteq> [[]] \<Longrightarrow>
   scan Start [] fs (join [comma] (map csv_field flds) @ nl # rest) =
   map_option ((#) (rev fs @ flds)) (scan Start [] [] rest)"
proof (induction flds arbitrary: fs)
  case Nil
  then show ?case by simp
next
  case (Cons f gs)
  show ?case
  proof (cases gs)
    case Nil
    with Cons.prems show ?thesis
      by (simp add: scan_field_nl)
  next
    case (Cons g hs)
    with Cons.IH [of "f # fs"] show ?thesis
      by (simp add: scan_field_comma)
  qed
qed

lemma scan_record:
  "scan Start [] [] (csv_record flds @ rest) = map_option ((#) flds) (scan Start [] [] rest)"
proof (cases "flds = [] \<or> flds = [[]]")
  case True
  then show ?thesis
    by (auto simp: csv_record_def)
next
  case False
  then show ?thesis
    using scan_fields [of flds "[]" rest] by (simp add: csv_record_def)
qed

lemma parse_csv_records [simp]: "parse_csv (concat (map csv_record recs)) = Some recs"
  by (induction recs) (simp_all add: parse_csv_def scan_record)

lemma length_csv_records [simp]: "wf_frame df \<Longrightarrow> length (csv_records fr df) = nrows df + 1"
  by (simp add: csv_records_def length_rows)

lemma width_csv_records:
  assumes "wf_frame df" and "r \<in> set (csv_records fr df)"
  shows "length r = ncols df"
  using assms rows_width [of df]
  by (auto simp: csv_records_def column_names_def ncols_def)

lemma csv_field_plain: "\<not> list_ex special s \<Longrightarrow> csv_field s = s"
  by (simp add: csv_field_def)

lemma to_csv_empty_table:
  "wf_frame df \<Longrightarrow> nrows df = 0 \<Longrightarrow> to_csv fr df = csv_record (column_names df)"
  using length_rows [of df] by (simp add: to_csv_def csv_records_def)

lemmas csv_eval = to_csv_def csv_records_def csv_record_def csv_field_def special_def
  escape_quotes_def dq_def nl_def cr_def comma_def

text \<open>
  C5. Reading back the text \<^verbatim>\<open>to_csv\<close> writes gives the records that were written: the
  column names and then the rows as texts. For a well-formed table these are one record
  more than the table has rows, each with as many fields as the table has columns.
\<close>

theorem to_csv_roundtrip:
  assumes "wf_frame df"
  shows "parse_csv (to_csv fr df) = Some (csv_records fr df) \<and>
         length (csv_records fr df) = nrows df + 1 \<and>
         (\<forall>r \<in> set (csv_records fr df). length r = ncols df) \<and>
         hd (csv_records fr df) = column_names df"
  using assms by (simp add: to_csv_def width_csv_records) (simp add: csv_records_def)

lemma to_csv_bos_only:
  "to_csv fr bos_only = ''player,team,pos,pts'' @ [nl] @ ''A,BOS,PG,30'' @ [nl]"
  by (simp add: csv_eval eval_defs example_defs num_eval)

theorem to_csv_roundtrip_witness:
  "wf_frame bos_only \<and>
   parse_csv (''player,team,pos,pts'' @ [nl] @ ''A,BOS,PG,30'' @ [nl]) =
     Some [[''player'', ''team'', ''pos'', ''pts''], [''A'', ''BOS'', ''PG'', ''30'']]"
proof -
  have wf: "wf_frame bos_only"
    by (simp add: eval_defs example_defs wf_frame_def wf_column_def)
  have "csv_records fr bos_only = [[''player'', ''team'', ''pos'', ''pts''], [''A'', ''BOS'', ''PG'', ''30'']]"
    for fr
    by (simp add: csv_eval eval_defs example_defs num_eval)
  with to_csv_roundtrip [OF wf, of "\<lambda>q. []"] wf show ?thesis
    by (simp add: to_csv_bos_only)
qed

section \<open>Encoding and decoding base 64\<close>

lemma length_b64_alphabet: "length b64_alphabet = 64"
  by (simp add: b64_alphabet_def)

lemma distinct_b64_alphabet: "distinct b64_alphabet"
  by (simp add: b64_alphabet_def)

lemma pad_not_in_b64_alphabet: "CHR ''='' \<notin> set b64_alphabet"
  by (simp add: b64_alphabet_def)

lemma dq_not_in_b64_alphabet: "dq \<notin> set b64_alphabet"
  by (simp add: b64_alphabet_def dq_def)

lemma takeWhile_nth_distinct:
  "distinct xs \<Longrightarrow> n < length xs \<Longrightarrow> length (takeWhile (\<lambda>d. d \<noteq> xs ! n) xs) = n"
proof (induction xs arbitrary: n)
  case Nil
  then show ?case by simp
next
  case (Cons x xs)
  then show ?case
    by (cases n) auto
qed

lemma b64_char_in: "n < 64 \<Longrightarrow> b64_char n \<in> set b64_alphabet"
  by (simp add: b64_char_def length_b64_alphabet)

lemma b64_val_b64_char [simp]: "n < 64 \<Longrightarrow> b64_val (b64_char n) = Some n"
  using b64_char_in [of n]
  by (simp add: b64_val_def) (simp add: b64_char_def takeWhile_nth_distinct distinct_b64_alphabet
      length_b64_alphabet)

lemma b64_char_not_pad [simp]: "n < 64 \<Longrightarrow> b64_char n \<noteq> CHR ''=''"
  using b64_char_in [of n] pad_not_in_b64_alphabet by auto

lemma of_char_less: "of_char c < (256 :: nat)"
  by (metis of_char_mod_256 mod_less_divisor zero_less_numeral)

lemma char_of_shifted [simp]: "char_of (a * 256 + of_char c :: nat) = c"
  using char_of_mod_256 [of "a * 256 + of_char c :: nat"] by simp

lemma sextets_join:
  fixes n :: nat
  shows "n div 262144 * 262144 + n div 4096 mod 64 * 4096 + n div 64 mod 64 * 64 + n mod 64 = n"
proof -
  have "n mod 4096 = 64 * (n div 64 mod 64) + n mod 64"
    using mod_mult2_eq [of n 64 64] by simp
  moreover have "n mod 262144 = 4096 * (n div 4096 mod 64) + n mod 4096"
    using mod_mult2_eq [of n 4096 64] by simp
  moreover have "n = 262144 * (n div 262144) + n mod 262144"
    by simp
  ultimately show ?thesis
    by simp
qed

lemma sextets_join2:
  fixes n :: nat
  shows "n div 4096 * 4096 + n div 64 mod 64 * 64 + n mod 64 = n"
proof -
  have "n mod 4096 = 64 * (n div 64 mod 64) + n mod 64"
    using mod_mult2_eq [of n 64 64] by simp
  moreover have "n = 4096 * (n div 4096) + n mod 4096"
    by simp
  ultimately show ?thesis
    by simp
qed

lemma b64decode_group:
  fixes a b c :: char
  defines "n \<equiv> of_char a * 65536 + of_char b * 256 + (of_char c :: nat)"
  shows "b64decode (b64_char (n div 262144) # b64_char (n div 4096 mod 64) #
            b64_char (n div 64 mod 64) # b64_char (n mod 64) # s)
         = map_option (\<lambda>bs. a # b # c # bs) (b64decode s)"
proof -
  note bytes = of_char_less [of a] of_char_less [of b] of_char_less [of c]
  have d: "n div 262144 < 64"
    unfolding n_def using bytes by linarith
  have a: "n div 65536 = of_char a"
    unfolding n_def using bytes by linarith
  have b: "n div 256 = of_char a * 256 + of_char b"
    unfolding n_def using bytes by linarith
  have c: "char_of n = c"
    using char_of_shifted [of "of_char a * 256 + of_char b" c] by (simp add: n_def algebra_simps)
  show ?thesis
    using d by (simp add: sextets_join a b c)
qed

lemma b64decode_pad1:
  fixes a b :: char
  defines "n \<equiv> of_char a * 1024 + (of_char b :: nat) * 4"
  shows "b64decode [b64_char (n div 4096), b64_char (n div 64 mod 64), b64_char (n mod 64), CHR ''='']
         = Some [a, b]"
proof -
  note bytes = of_char_less [of a] of_char_less [of b]
  have d: "n div 4096 < 64"
    unfolding n_def using bytes by linarith
  have a: "n div 1024 = of_char a"
    unfolding n_def using bytes by linarith
  have b: "n div 4 = of_char a * 256 + of_char b"
    unfolding n_def using bytes by linarith
  show ?thesis
    using d by (simp add: sextets_join2 a b)
qed

lemma b64decode_pad2:
  fixes a :: char
  defines "n \<equiv> (of_char a :: nat) * 16"
  shows "b64decode [b64_char (n div 64), b64_char (n mod 64), CHR ''='', CHR ''=''] = Some [a]"
proof -
  have d: "n div 64 < 64"
    unfolding n_def using of_char_less [of a] by linarith
  have "n div 64 * 64 + n mod 64 = n"
    by simp
  then show ?thesis
    using d by (simp add: n_def)
qed

lemma length_b64encode: "length (b64encode bs) = 4 * ((length bs + 2) div 3)"
  by (induction bs rule: b64encode.induct) (simp_all add: Let_def, presburger)

lemma set_b64encode: "set (b64encode bs) \<subseteq> insert (CHR ''='') (set b64_alphabet)"
proof (induction bs rule: b64encode.induct)
  case 1
  then show ?case by simp
next
  case (2 a)
  have "of_char a * 16 div 64 < (64 :: nat)"
    using of_char_less [of a] by linarith
  then show ?case
    by (simp add: Let_def b64_char_in)
next
  case (3 a b)
  have "(of_char a * 1024 + of_char b * 4) div 4096 < (64 :: nat)"
    using of_char_less [of a] of_char_less [of b] by linarith
  then show ?case
    by (simp add: Let_def b64_char_in)
next
  case (4 a b c bs)
  have "(of_char a * 65536 + of_char b * 256 + of_char c) div 262144 < (64 :: nat)"
    using of_char_less [of a] of_char_less [of b] of_char_less [of c] by linarith
  with 4 show ?case
    by (auto simp: Let_def b64_char_in)
qed

lemma encode_ascii: "\<forall>c \<in> set s. of_char c < (128 :: nat) \<Longrightarrow> encode s = s"
  by (induction s) (simp_all add: encode_def utf8_char_def)

lemma dq_notin_b64encode: "dq \<notin> set (b64encode bs)"
  using set_b64encode [of bs] dq_not_in_b64_alphabet by (auto simp: dq_def)


lemma b64decode_encoded [simp]: "b64decode (b64encode bs) = Some bs"
proof (induction bs rule: b64encode.induct)
  case 1
  then show ?case by simp
next
  case (2 a)
  then show ?case using b64decode_pad2 [of a] by (simp add: Let_def)
next
  case (3 a b)
  then show ?case using b64decode_pad1 [of a b] by (simp add: Let_def)
next
  case (4 a b c bs)
  then show ?case using b64decode_group [of a b c "b64encode bs"] by (simp add: Let_def)
qed

text \<open>
  C8. Decoding the base-64 text of a byte string gives the byte string back, whatever its
  length modulo three; the text has four characters for every three bytes begun, all of
  them of the alphabet or the padding sign.
\<close>

theorem b64decode_b64encode:
  "b64decode (b64encode bs) = Some bs \<and>
   length (b64encode bs) = 4 * ((length bs + 2) div 3) \<and>
   set (b64encode bs) \<subseteq> insert (CHR ''='') (set b64_alphabet)"
  by (simp add: length_b64encode set_b64encode)

section \<open>The link and the page section\<close>

text \<open>
  C11. The link is the fixed opening, the base-64 text and the fixed closing; the base-64
  text contains no double quote, so the \<^verbatim>\<open>href\<close> attribute ends where the script means it
  to, and it decodes to the UTF-8 bytes of the CSV text of the table.
\<close>

theorem filedownload_payload:
  "\<exists>b64. filedownload fr df =
       ''<a href='' @ [dq] @ ''data:file/csv;base64,'' @ b64 @ [dq] @ '' download='' @
       [dq] @ ''playerstats.csv'' @ [dq] @ ''>Download CSV File</a>'' \<and>
     dq \<notin> set b64 \<and> length b64 mod 4 = 0 \<and>
     b64decode b64 = Some (encode (to_csv fr df))"
  unfolding filedownload_def Let_def
  by (intro exI [of _ "b64encode (encode (to_csv fr df))"] conjI refl dq_notin_b64encode)
    (simp_all add: length_b64encode)

lemma dimension_text_shape:
  "dimension_text df =
   ''Data Dimension: '' @ str_of_nat (nrows df) @ '' rows and '' @ str_of_nat (ncols df) @ '' columns.''"
  by (simp add: dimension_text_def shape_def)


lemmas b64_eval = b64_char_def b64_alphabet_def encode_def utf8_char_def nl_def Let_def

lemma shape_bos_only [simp]: "nrows bos_only = 1" "ncols bos_only = 4"
  by (simp_all add: nrows_def ncols_def bos_only_def)

lemma dimension_text_bos_only:
  "dimension_text bos_only = ''Data Dimension: 1 rows and 4 columns.''"
  by (simp add: dimension_text_shape num_eval)

lemma filedownload_bos_only:
  "filedownload fr bos_only =
   ''<a href='' @ [dq] @ ''data:file/csv;base64,cGxheWVyLHRlYW0scG9zLHB0cwpBLEJPUyxQRywzMAo='' @ [dq] @
   '' download='' @ [dq] @ ''playerstats.csv'' @ [dq] @ ''>Download CSV File</a>''"
proof -
  have "b64encode (encode (''player,team,pos,pts'' @ [nl] @ ''A,BOS,PG,30'' @ [nl])) =
        ''cGxheWVyLHRlYW0scG9zLHB0cwpBLEJPUyxQRywzMAo=''"
    by (simp add: b64_eval)
  then show ?thesis
    by (simp add: filedownload_def to_csv_bos_only)
qed

end
