(* ===== verification/Table_Ops.thy ===== *)
theory Table_Ops
  imports Presentation "HOL-Library.Multiset" "HOL-Library.Product_Lexorder"
begin

text \<open>
  The calls of the table library that the chart branches make (lines 76-80, 93, 107 and
  132 of \<^verbatim>\<open>src/eda.py\<close>), as functions on \<open>frame\<close>: the numeric columns of a table,
  the test for an empty table, the correlation matrix over a given pairwise coefficient
  and the mask of its upper triangle, the coercion of a column to numbers, the \<open>n\<close>
  rows with the largest value of a column, the selection of columns by name, and the mean
  of one column per value of another. Cells are ordered by \<open>cell_key\<close>: numbers by
  value before texts in dictionary order before the missing value.

  Three choices of the library are fixed here. Ties in \<open>nlargest\<close> keep the order of
  the rows (\<^verbatim>\<open>keep='first'\<close>). Missing values come last in \<open>nlargest\<close> and are left out
  of keys and means in \<open>group_mean\<close>. \<open>nlargest\<close> and \<open>group_mean\<close> raise
  \<^verbatim>\<open>TypeError\<close> on a column whose type is not numeric. The reading of a text as a
  number (\<open>num\<close>) and the correlation coefficient of two columns (\<open>r\<close>) are arguments.
\<close>

section \<open>An order on cells\<close>

fun cell_key :: "cell \<Rightarrow> nat \<times> rat \<times> nat \<times> string" where
  "cell_key (VInt i) = (0, of_int i, 0, [])"
| "cell_key (VFloat q) = (0, q, 1, [])"
| "cell_key (VStr s) = (1, 0, 0, s)"
| "cell_key VNaN = (2, 0, 0, [])"

lemma cell_key_inject [simp]: "cell_key c = cell_key d \<longleftrightarrow> c = d"
  by (cases c; cases d) simp_all

instantiation cell :: linorder
begin

definition less_eq_cell :: "cell \<Rightarrow> cell \<Rightarrow> bool" where
  "less_eq_cell c d \<longleftrightarrow> cell_key c \<le> cell_key d"

definition less_cell :: "cell \<Rightarrow> cell \<Rightarrow> bool" where
  "less_cell c d \<longleftrightarrow> cell_key c < cell_key d"

instance
proof
  fix x y z :: cell
  show "x < y \<longleftrightarrow> x \<le> y \<and> \<not> y \<le> x"
    unfolding less_eq_cell_def less_cell_def by (rule less_le_not_le)
  show "x \<le> x"
    unfolding less_eq_cell_def by (rule order_refl)
  show "x \<le> y \<Longrightarrow> y \<le> z \<Longrightarrow> x \<le> z"
    unfolding less_eq_cell_def by (rule order_trans)
  show "x \<le> y \<Longrightarrow> y \<le> x \<Longrightarrow> x = y"
    unfolding less_eq_cell_def using cell_key_inject [of x y] by (simp only: antisym)
  show "x \<le> y \<or> y \<le> x"
    unfolding less_eq_cell_def by (rule linear)
qed

end

fun cell_value :: "cell \<Rightarrow> rat" where
  "cell_value (VInt i) = of_int i"
| "cell_value (VFloat q) = q"
| "cell_value c = 0"

fun is_number :: "cell \<Rightarrow> bool" where
  "is_number (VInt i) = True"
| "is_number (VFloat q) = True"
| "is_number c = False"

section \<open>Numeric columns, correlation and mask\<close>

definition select_dtypes_number :: "frame \<Rightarrow> frame" where
  "select_dtypes_number df = df\<lparr>columns := filter (\<lambda>k. is_numeric (ctype k)) (columns df)\<rparr>"

definition frame_empty :: "frame \<Rightarrow> bool" where
  "frame_empty df \<longleftrightarrow> nrows df = 0 \<or> ncols df = 0"

type_synonym pearson = "cell list \<Rightarrow> cell list \<Rightarrow> cell"

definition corr :: "pearson \<Rightarrow> frame \<Rightarrow> cell list list" where
  "corr r df = map (\<lambda>a. map (\<lambda>b. r (cells a) (cells b)) (columns df)) (columns df)"

definition zeros_like :: "'a list list \<Rightarrow> bool list list" where
  "zeros_like m = map (map (\<lambda>x. False)) m"

definition triu_indices_from :: "'a list list \<Rightarrow> (nat \<times> nat) list" where
  "triu_indices_from m = concat (map (\<lambda>i. map (Pair i) [i..<length (m ! i)]) [0..<length m])"

definition set_true :: "(nat \<times> nat) list \<Rightarrow> bool list list \<Rightarrow> bool list list" where
  "set_true idx m =
     map (\<lambda>i. map (\<lambda>j. (i, j) \<in> set idx \<or> m ! i ! j) [0..<length (m ! i)]) [0..<length m]"

definition triu_mask :: "'a list list \<Rightarrow> bool list list" where
  "triu_mask c = (let msk = zeros_like c in set_true (triu_indices_from msk) msk)"

definition shown :: "bool list list \<Rightarrow> (nat \<times> nat) list" where
  "shown msk =
     concat (map (\<lambda>i. map (Pair i) (filter (\<lambda>j. \<not> msk ! i ! j) [0..<length (msk ! i)]))
       [0..<length msk])"

section \<open>Coercion to numbers\<close>

fun to_numeric_cell :: "(string \<Rightarrow> cell) \<Rightarrow> cell \<Rightarrow> cell" where
  "to_numeric_cell num (VStr s) = (case num s of VStr t \<Rightarrow> VNaN | c \<Rightarrow> c)"
| "to_numeric_cell num c = c"

fun is_int :: "cell \<Rightarrow> bool" where
  "is_int (VInt i) = True"
| "is_int c = False"

fun to_float :: "cell \<Rightarrow> cell" where
  "to_float (VInt i) = VFloat (of_int i)"
| "to_float (VFloat q) = VFloat q"
| "to_float c = VNaN"

definition to_numeric :: "(string \<Rightarrow> cell) \<Rightarrow> column \<Rightarrow> column" where
  "to_numeric num k =
     (if is_numeric (ctype k) then k
      else let cs = map (to_numeric_cell num) (cells k)
           in if list_all is_int cs then k\<lparr>ctype := Int64, cells := cs\<rparr>
              else k\<lparr>ctype := Float64, cells := map to_float cs\<rparr>)"

section \<open>The largest rows\<close>

definition take_rows :: "nat list \<Rightarrow> frame \<Rightarrow> frame" where
  "take_rows ps df =
     df\<lparr>index := map ((!) (index df)) ps,
        columns := map (\<lambda>k. k\<lparr>cells := map ((!) (cells k)) ps\<rparr>) (columns df)\<rparr>"

definition order_desc :: "cell list \<Rightarrow> nat list" where
  "order_desc cs =
     sort_key (\<lambda>i. - cell_value (cs ! i)) (filter (\<lambda>i. cs ! i \<noteq> VNaN) [0..<length cs]) @
     filter (\<lambda>i. cs ! i = VNaN) [0..<length cs]"

definition nlargest :: "nat \<Rightarrow> string \<Rightarrow> frame \<Rightarrow> frame result" where
  "nlargest n c df =
     bind_result (get_column c df) (\<lambda>k.
       if is_numeric (ctype k) then Inr (take_rows (take n (order_desc (cells k))) df)
       else Inl (TypeError c))"

definition select_columns :: "string list \<Rightarrow> frame \<Rightarrow> frame result" where
  "select_columns names df =
     (case filter (\<lambda>n. \<not> has_column n df) names of
        [] \<Rightarrow> Inr (df\<lparr>columns := concat (map (\<lambda>n. filter (\<lambda>k. cname k = n) (columns df)) names)\<rparr>)
      | n # ns \<Rightarrow> Inl (KeyError n))"

section \<open>Means by group\<close>

definition mean :: "cell list \<Rightarrow> cell" where
  "mean cs =
     (let xs = map cell_value (filter is_number cs)
      in if xs = [] then VNaN else VFloat (sum_list xs / of_nat (length xs)))"

definition group_keys :: "cell list \<Rightarrow> cell list" where
  "group_keys cs = sort (unique (filter (\<lambda>c. c \<noteq> VNaN) cs))"

definition group_mean :: "string \<Rightarrow> string \<Rightarrow> frame \<Rightarrow> frame result" where
  "group_mean grp c df =
     bind_result (get_column grp df) (\<lambda>g.
     bind_result (get_column c df) (\<lambda>v.
       if is_numeric (ctype v)
       then let keys = group_keys (cells g)
            in Inr \<lparr>index = [0..<length keys],
                    columns =
                      [\<lparr>cname = grp, ctype = ctype g, cells = keys\<rparr>,
                       \<lparr>cname = c, ctype = Float64,
                        cells = map (\<lambda>key. mean (select_mask (map (\<lambda>x. x = key) (cells g)) (cells v)))
                                  keys\<rparr>]\<rparr>
       else Inl (TypeError c)))"

end
