(* ===== verification/Charts.thy ===== *)
theory Charts
  imports Table_Ops
begin

text \<open>
  Lines 66-153 of \<^verbatim>\<open>src/eda.py\<close>: the radio button with the six chart names and the
  six branches. Each branch is a function from the filtered table to the part of the page
  it writes: its header, then either the figure built from the table or the line of text
  the branch writes when a column it asks for is absent. The plotting calls with
  \<^verbatim>\<open>x=\<close>, \<^verbatim>\<open>y=\<close> and \<^verbatim>\<open>data=\<close> go through \<open>sns\<close>, which raises \<^verbatim>\<open>ValueError\<close> when
  the table has no column of a name it is given, as the plotting library does.
\<close>

section \<open>Plotting calls\<close>

definition sq :: char where
  "sq = CHR 0x27"

definition sns :: "(string \<Rightarrow> string \<Rightarrow> frame \<Rightarrow> plot) \<Rightarrow> string \<Rightarrow> string \<Rightarrow> frame \<Rightarrow> plot result" where
  "sns kind x y data =
     (if \<not> has_column x data then Inl (ValueError x)
      else if \<not> has_column y data then Inl (ValueError y)
      else Inr (kind x y data))"

definition subplots :: "nat \<times> nat \<Rightarrow> plot \<Rightarrow> figure" where
  "subplots sz p =
     \<lparr>figsize = sz, plot = p, xlabel = None, ylabel = None, title = [], xticks_rotation = None\<rparr>"

section \<open>The six branches\<close>

definition heatmap_chart :: "pearson \<Rightarrow> frame \<Rightarrow> page" where
  "heatmap_chart r df =
     then_page (emit [Header ''Intercorrelation Matrix Heatmap''])
       (let numeric_df = select_dtypes_number df
        in if \<not> frame_empty numeric_df
           then let c = corr r numeric_df;
                    msk = triu_mask c;
                    fig = subplots (7, 5)
                            (Heatmap (column_names numeric_df) c msk None 1 True True ''coolwarm'')
                in emit [Pyplot (fig\<lparr>title := ''Correlation Heatmap of Numeric Metrics''\<rparr>)]
           else emit [Write ''No numeric data available for correlation.''])"

definition metrics :: "string list" where
  "metrics = [''pts'', ''reb'', ''ast'']"

fun box_plots :: "(string \<Rightarrow> cell) \<Rightarrow> string list \<Rightarrow> frame \<Rightarrow> page" where
  "box_plots num [] df = emit []"
| "box_plots num (metric # ms) df =
     (if has_column metric df
      then of_result (update_column metric (to_numeric num) df) (\<lambda>df'.
           of_result (sns Boxplot ''team'' metric df') (\<lambda>p.
             then_page
               (emit [Pyplot ((subplots (12, 6) p)
                  \<lparr>xlabel := Some ''Team'', ylabel := Some metric,
                   title := ''Box Plot of '' @ metric @ '' by Team'',
                   xticks_rotation := Some 90\<rparr>)])
               (box_plots num ms df')))
      else then_page
             (emit [Write (''Metric '' @ [sq] @ metric @ [sq] @ '' is not available in the dataset.'')])
             (box_plots num ms df))"

definition box_plot_chart :: "(string \<Rightarrow> cell) \<Rightarrow> frame \<Rightarrow> page" where
  "box_plot_chart num df = then_page (emit [Header ''Box Plot by Team'']) (box_plots num metrics df)"

definition top10_chart :: "frame \<Rightarrow> page" where
  "top10_chart df =
     then_page (emit [Header ''Top 10 Players by Points Scored''])
       (if has_column ''pts'' df \<and> has_column ''player'' df
        then of_result (bind_result (nlargest 10 ''pts'' df) (select_columns [''player'', ''pts'']))
               (\<lambda>top_players.
             of_result (sns Barplot ''pts'' ''player'' top_players) (\<lambda>p.
               emit [Pyplot ((subplots (12, 8) p)
                  \<lparr>xlabel := Some ''Points'', ylabel := Some ''Player'',
                   title := ''Top 10 Players by Points Scored''\<rparr>)]))
        else emit [Write ''The 'pts' or 'player' column is missing in the dataset.''])"

definition scatter_chart :: "frame \<Rightarrow> page" where
  "scatter_chart df =
     then_page (emit [Header ''Points vs. Assists''])
       (if has_column ''pts'' df \<and> has_column ''ast'' df
        then of_result (sns Scatterplot ''pts'' ''ast'' df) (\<lambda>p.
               emit [Pyplot ((subplots (10, 6) p)
                  \<lparr>xlabel := Some ''Points'', ylabel := Some ''Assists'',
                   title := ''Points vs. Assists''\<rparr>)])
        else emit [Write ''The 'pts' or 'ast' columns are missing in the dataset.''])"

definition age_chart :: "frame \<Rightarrow> page" where
  "age_chart df =
     then_page (emit [Header ''Average Points Scored by Age''])
       (if has_column ''age'' df \<and> has_column ''pts'' df
        then of_result (group_mean ''age'' ''pts'' df) (\<lambda>age_points.
             of_result (sns Lineplot ''age'' ''pts'' age_points) (\<lambda>p.
               emit [Pyplot ((subplots (10, 6) p)
                  \<lparr>xlabel := Some ''Age'', ylabel := Some ''Average Points'',
                   title := ''Average Points Scored by Age''\<rparr>)]))
        else emit [Write ''The 'age' or 'pts' columns are missing in the dataset.''])"

definition team_chart :: "frame \<Rightarrow> page" where
  "team_chart df =
     then_page (emit [Header ''Points Scored by Team''])
       (if has_column ''pts'' df \<and> has_column ''team'' df
        then of_result (sns Boxplot ''team'' ''pts'' df) (\<lambda>p.
               emit [Pyplot ((subplots (12, 6) p)
                  \<lparr>xlabel := Some ''Team'', ylabel := Some ''Points'',
                   title := ''Points Scored by Team'', xticks_rotation := Some 90\<rparr>)])
        else emit [Write ''The 'pts' or 'team' columns are missing in the dataset.''])"

section \<open>The selector\<close>

definition radio_options :: "string list" where
  "radio_options =
     [''Intercorrelation Heatmap'', ''Box Plot by Team'', ''Top 10 Players by Points'',
      ''Points vs. Assists'', ''Average Points by Age'', ''Points by Team'']"

definition radio :: "string list \<Rightarrow> nat option \<Rightarrow> string" where
  "radio options picked =
     (case picked of None \<Rightarrow> hd options
      | Some i \<Rightarrow> if i < length options then options ! i else hd options)"

definition chart :: "pearson \<Rightarrow> (string \<Rightarrow> cell) \<Rightarrow> string \<Rightarrow> frame \<Rightarrow> page" where
  "chart r num visualization df =
     (if visualization = ''Intercorrelation Heatmap'' then heatmap_chart r df
      else if visualization = ''Box Plot by Team'' then box_plot_chart num df
      else if visualization = ''Top 10 Players by Points'' then top10_chart df
      else if visualization = ''Points vs. Assists'' then scatter_chart df
      else if visualization = ''Average Points by Age'' then age_chart df
      else if visualization = ''Points by Team'' then team_chart df
      else emit [])"

definition visualizations :: "pearson \<Rightarrow> (string \<Rightarrow> cell) \<Rightarrow> nat option \<Rightarrow> frame \<Rightarrow> page" where
  "visualizations r num picked df =
     then_page (emit [SidebarHeader ''Visualizations''])
       (chart r num (radio radio_options picked) df)"

end
