(* ===== verification/Spec2Isabelle.thy ===== *)
theory Spec2Isabelle
  imports Charts
begin

text \<open>
  \<^bold>\<open>A verification development for the NBA player-statistics explorer\<close>
  (\<^verbatim>\<open>src/eda.py\<close>, a Streamlit script of 153 lines).

  \<^bold>\<open>The program.\<close> The script runs from top to bottom once per user interaction. It
  reads the year chosen in the sidebar, loads the season's per-game table from a web page
  (\<^verbatim>\<open>load_data\<close>, memoised per year by \<^verbatim>\<open>@st.cache_data\<close>), removes repeated
  header rows, fills missing cells with 0 and drops the rank column; it then normalises
  the column names, converts the team column to text, offers the teams and five positions
  as filters, keeps the rows whose team and position are selected, shows the table with
  its dimensions and a CSV download link, and draws the one chart the user selected, or a
  line of text when a column the chart needs is missing. The only state that outlives a
  run is the cache of loaded tables.

  \<^bold>\<open>The theories.\<close>
  \<^item> \<open>Prelude\<close>: the error values (one constructor per Python exception class the
    script can raise), the result type, selection by a boolean mask, first-occurrence
    de-duplication, the row view of columns, and the fact collections \<open>frame_defs\<close>,
    \<open>wf_intros\<close>, \<open>shape_simps\<close>.
  \<^item> \<open>Text\<close>: Python's \<^verbatim>\<open>str(int)\<close>, \<^verbatim>\<open>strip\<close>, \<^verbatim>\<open>lower\<close> and single-character
    \<^verbatim>\<open>replace\<close> on ASCII text, with a left inverse of the decimal text and the fixed
    points of the three methods.
  \<^item> \<open>Frame\<close>: the table (\<open>frame\<close>: row labels and typed, named columns of \<open>cell\<close>s)
    and the table-library calls of the script as functions: \<open>get_column\<close>
    (\<^verbatim>\<open>df[c]\<close>), \<open>get_attr\<close> (\<^verbatim>\<open>df.c\<close>), \<open>eq_str\<close> (\<^verbatim>\<open>col == s\<close>), \<open>isin\<close>,
    \<open>mask_and\<close> (\<^verbatim>\<open>&\<close>), \<open>select_rows\<close> (\<^verbatim>\<open>df[mask]\<close>), \<open>drop_rows\<close>, \<open>fillna\<close>,
    \<open>drop_columns\<close>, \<open>rename_columns\<close>, \<open>update_column\<close> (\<^verbatim>\<open>df[c] = f(df[c])\<close>),
    \<open>astype_str\<close>, \<open>shape\<close>. Lemmas: each keeps \<open>wf_frame\<close>; shapes; the effect on
    \<open>rows\<close>.
  \<^item> \<open>Example_Data\<close>: the concrete tables the witnesses evaluate.
  \<^item> \<open>Loader\<close>: \<open>year_options\<close> (line 29), \<open>url_of_year\<close> (line 33), \<open>load_data\<close>
    (lines 32-39) over a parameter \<open>read_html\<close> that stands for the fetch, and
    \<open>load_data_cached\<close> (lines 31, 41). Theorems: every outcome of \<open>load_data\<close>, errors
    included; returned tables are clean (\<open>is_clean\<close>); \<open>load_data\<close> implements the
    label-free specification \<open>clean\<close>.

  \<^bold>\<open>Modelling decisions.\<close> Python integers are \<open>int\<close>; floats are the rationals they
  denote (rounding is not modelled); strings are lists of 8-bit characters, so
  \<^verbatim>\<open>strip\<close> and \<^verbatim>\<open>lower\<close> are modelled on ASCII. A raised exception is a value
  \<open>Inl e\<close>; sequencing is \<open>bind_result\<close>. The fetch is a function argument, of which the
  theorems assume at most that the table it returns is well formed. No loop of the script
  is unbounded, so no fuel is used: every function is total by structural recursion or a
  termination proof.

  \<^bold>\<open>Not modelled.\<close> The rendering done by Streamlit, Matplotlib and Seaborn (page
  layout, widgets, pixels), the HTTP fetch and HTML parsing inside \<^verbatim>\<open>pd.read_html\<close>, and
  floating-point rounding.

  \<^bold>\<open>Plan.\<close> In the order of the script: loader and cleaning (this theory's imports);
  column-name normalisation and the team conversion (lines 44-45); the filter stage
  (lines 47-52) with its row-level specification; presentation (dimensions line, CSV text
  and its base64 link, lines 54-64); the chart selector (lines 66-153) as a function from
  the chart name and the table to the list of page elements; the whole run and the session
  as a step relation over the cache.
\<close>

end
